theory Spec2Isabelle
  imports Complex_Main "HOL-Library.Product_Lexorder"
begin

text \<open>
  A shallow embedding of the core runtime of the agent: the OpenAI-compatible HTTP channel
  (authentication, request handling, the buffered and the streamed reply path), the file
  and the relational memory store, and the embedding worker with its durable queue.
  Python functions are HOL functions of the same name; what they mutate (the pending
  map of the channel, the files, the database) is passed in and returned; what they
  raise is the left summand of their result. The definitions come first, the theorems
  about them follow.
\<close>

section \<open>Shared values: Python exceptions and JSON\<close>

text \<open>
  Every \<^verbatim>\<open>raise\<close> of the modelled code, and every exception of a library call it
  makes, is a value of \<open>exn\<close>; a function that can raise returns \<open>exn + 'a\<close>.
\<close>

datatype exn =
    AttributeError
  | TypeError
  | IndexError
  | OverflowError
  | EmbeddingError string
  | DbError string

text \<open>
  A JSON document as Python's \<^verbatim>\<open>json\<close> module decodes it. A \<^verbatim>\<open>dict\<close> keeps its
  insertion order, so an object is an association list (with distinct keys). A float is
  the real number it denotes (NaN and the infinities are not represented). A string is
  its list of characters.
\<close>

datatype json =
    JNull
  | JBool bool
  | JInt int
  | JFloat real
  | JStr string
  | JList "json list"
  | JDict "(string \<times> json) list"

text \<open>Python's truth value of a decoded JSON value (\<^verbatim>\<open>not x\<close> is its negation).\<close>

fun truthy :: "json \<Rightarrow> bool" where
  "truthy JNull = False"
| "truthy (JBool b) = b"
| "truthy (JInt i) = (i \<noteq> 0)"
| "truthy (JFloat r) = (r \<noteq> 0)"
| "truthy (JStr s) = (s \<noteq> [])"
| "truthy (JList xs) = (xs \<noteq> [])"
| "truthy (JDict kvs) = (kvs \<noteq> [])"

text \<open>\<^verbatim>\<open>x.get(key, default)\<close>: only a dict has the method.\<close>

fun py_get :: "json \<Rightarrow> string \<Rightarrow> json \<Rightarrow> exn + json" where
  "py_get (JDict kvs) k d = Inr (case map_of kvs k of None \<Rightarrow> d | Some v \<Rightarrow> v)"
| "py_get _ k d = Inl AttributeError"

text \<open>\<^verbatim>\<open>s.startswith(p)\<close> and \<^verbatim>\<open>sep.join(parts)\<close> on strings.\<close>

definition startswith :: "string \<Rightarrow> string \<Rightarrow> bool" where
  "startswith s p = (take (length p) s = p)"

fun join :: "string \<Rightarrow> string list \<Rightarrow> string" where
  "join sep [] = []"
| "join sep [x] = x"
| "join sep (x # y # ys) = x @ sep @ join sep (y # ys)"

section \<open>HTTP gateway channel (nanobot/channels/openapi.py)\<close>

text \<open>
  Modelled from the spec: \<^verbatim>\<open>OpenAPIConfig\<close> is declared in nanobot.config.schema, which is
  not among the sources. The spec lists \<^verbatim>\<open>api_keys\<close> (optional allow-list),
  \<^verbatim>\<open>timeout\<close> (seconds) and \<^verbatim>\<open>model_name\<close> (echoed in responses). An absent
  allow-list is \<open>None\<close>.
\<close>

record OpenAPIConfig =
  api_keys :: "string list option"
  timeout :: nat
  model_name :: string

text \<open>
  What the handler reads of an aiohttp request: the headers (a lookup by header name) and
  the result of \<^verbatim>\<open>await request.json()\<close>, \<open>None\<close> when the body is not JSON
  (\<^verbatim>\<open>json.JSONDecodeError\<close>).
\<close>

record request =
  headers :: "string \<rightharpoonup> string"
  body_json :: "json option"

record response =
  status :: nat
  payload :: json

definition error_response :: "nat \<Rightarrow> string \<Rightarrow> string \<Rightarrow> response" where
  "error_response st msg ty =
     \<lparr>status = st,
      payload = JDict [(''error'', JDict [(''message'', JStr msg), (''type'', JStr ty)])]\<rparr>"

text \<open>\<^verbatim>\<open>OpenAPIChannel._verify_api_key\<close>.\<close>

definition verify_api_key :: "OpenAPIConfig \<Rightarrow> request \<Rightarrow> bool" where
  "verify_api_key cfg req =
     (case api_keys cfg of
        None \<Rightarrow> True
      | Some keys \<Rightarrow>
          if keys = [] then True
          else
            let auth_header = (case headers req ''Authorization'' of None \<Rightarrow> [] | Some v \<Rightarrow> v)
            in if \<not> startswith auth_header ''Bearer '' then False
               else let token = drop 7 auth_header in token \<in> set keys)"

text \<open>
  What \<^verbatim>\<open>_handle_chat_completions\<close> does with a request: it answers, or it hands
  the request id, chat id, user and extracted text to one of the two reply paths.
\<close>

datatype outcome =
    Respond response
  | ToStream string string json string
  | ToNonStream string string json string

text \<open>
  \<^verbatim>\<open>[p.get("text", "") for p in content if p.get("type") == "text"]\<close>, and the
  \<^verbatim>\<open>"\n".join(...)\<close> of the parts, which raises on a part that is not a string.
\<close>

fun text_parts :: "json list \<Rightarrow> exn + json list" where
  "text_parts [] = Inr []"
| "text_parts (p # ps) =
     (case py_get p ''type'' JNull of
        Inl e \<Rightarrow> Inl e
      | Inr ty \<Rightarrow>
          if ty = JStr ''text'' then
            (case py_get p ''text'' (JStr []) of
               Inl e \<Rightarrow> Inl e
             | Inr t \<Rightarrow> (case text_parts ps of Inl e \<Rightarrow> Inl e | Inr ts \<Rightarrow> Inr (t # ts)))
          else text_parts ps)"

fun as_strs :: "json list \<Rightarrow> exn + string list" where
  "as_strs [] = Inr []"
| "as_strs (JStr s # js) = (case as_strs js of Inl e \<Rightarrow> Inl e | Inr ss \<Rightarrow> Inr (s # ss))"
| "as_strs (_ # js) = Inl TypeError"

definition join_json :: "string \<Rightarrow> json list \<Rightarrow> exn + string" where
  "join_json sep js = (case as_strs js of Inl e \<Rightarrow> Inl e | Inr ss \<Rightarrow> Inr (join sep ss))"

text \<open>
  The loop \<^verbatim>\<open>for msg in reversed(messages)\<close> of the handler, on the reversed list: the
  first message whose role is \<^verbatim>\<open>"user"\<close> decides \<^verbatim>\<open>user_content\<close> and ends the loop.
\<close>

fun last_user_content :: "json list \<Rightarrow> exn + string" where
  "last_user_content [] = Inr []"
| "last_user_content (msg # rest) =
     (case py_get msg ''role'' JNull of
        Inl e \<Rightarrow> Inl e
      | Inr r \<Rightarrow>
          if r = JStr ''user'' then
            (case py_get msg ''content'' (JStr []) of
               Inl e \<Rightarrow> Inl e
             | Inr (JStr s) \<Rightarrow> Inr s
             | Inr (JList ps) \<Rightarrow>
                 (case text_parts ps of Inl e \<Rightarrow> Inl e | Inr ts \<Rightarrow> join_json [CHR 0x0A] ts)
             | Inr _ \<Rightarrow> Inr [])
          else last_user_content rest)"

text \<open>
  \<^verbatim>\<open>reversed(messages)\<close> followed by the loop, for whatever JSON value the body gave:
  a string or an object yields strings, which have no \<^verbatim>\<open>get\<close>; a number or a boolean is
  not reversible. (An empty or null value has been answered with 400 before.)
\<close>

fun extract_user_content :: "json \<Rightarrow> exn + string" where
  "extract_user_content (JList ms) = last_user_content (rev ms)"
| "extract_user_content (JStr s) = (if s = [] then Inr [] else Inl AttributeError)"
| "extract_user_content (JDict kvs) = (if kvs = [] then Inr [] else Inl AttributeError)"
| "extract_user_content _ = Inl TypeError"

text \<open>
  \<^verbatim>\<open>OpenAPIChannel._handle_chat_completions\<close>. Parameters stand for what the source
  takes from elsewhere: \<open>is_allowed\<close> is \<^verbatim>\<open>BaseChannel.is_allowed\<close> (nanobot.channels.base
  is not among the sources), \<open>py_str\<close> is Python's \<^verbatim>\<open>str()\<close> as the f-string applies it
  to \<^verbatim>\<open>user\<close>, \<open>hex1\<close> and \<open>hex2\<close> are the two \<^verbatim>\<open>uuid.uuid4().hex\<close> values.
\<close>

definition handle_chat_completions ::
  "OpenAPIConfig \<Rightarrow> (json \<Rightarrow> bool) \<Rightarrow> (json \<Rightarrow> string) \<Rightarrow> string \<Rightarrow> string \<Rightarrow> request
     \<Rightarrow> exn + outcome" where
  "handle_chat_completions cfg is_allowed py_str hex1 hex2 req =
     (if \<not> verify_api_key cfg req then
        Inr (Respond (error_response 401 ''Invalid API key'' ''invalid_request_error''))
      else case body_json req of
        None \<Rightarrow> Inr (Respond (error_response 400 ''Invalid JSON'' ''invalid_request_error''))
      | Some body \<Rightarrow>
         (case py_get body ''messages'' (JList []) of
            Inl e \<Rightarrow> Inl e
          | Inr messages \<Rightarrow>
         (case py_get body ''stream'' (JBool False) of
            Inl e \<Rightarrow> Inl e
          | Inr stream \<Rightarrow>
         (case py_get body ''user'' (JStr ''anonymous'') of
            Inl e \<Rightarrow> Inl e
          | Inr user \<Rightarrow>
              if \<not> truthy messages then
                Inr (Respond (error_response 400 ''messages is required'' ''invalid_request_error''))
              else
                (case extract_user_content messages of
                   Inl e \<Rightarrow> Inl e
                 | Inr user_content \<Rightarrow>
                     if user_content = [] then
                       Inr (Respond (error_response 400 ''No user message found''
                                       ''invalid_request_error''))
                     else if \<not> is_allowed user then
                       Inr (Respond (error_response 403 ''User not allowed'' ''permission_error''))
                     else
                       let request_id = ''chatcmpl-'' @ take 24 hex1;
                           chat_id = py_str user @ '':'' @ take 8 hex2
                       in if truthy stream
                          then Inr (ToStream request_id chat_id user user_content)
                          else Inr (ToNonStream request_id chat_id user user_content))))))"

subsection \<open>Bus events (nanobot/bus/events.py)\<close>

record StreamChunk =
  sc_content :: string
  is_final :: bool
  finish_reason :: "string option"

record OutboundMessage =
  out_channel :: string
  out_chat_id :: string
  out_content :: string

text \<open>
  The fields of an \<^verbatim>\<open>InboundMessage\<close> that the channel sets; \<open>in_wants_stream\<close> says
  whether a stream callback is attached.
\<close>

record InboundMessage =
  in_channel :: string
  in_sender_id :: json
  in_chat_id :: string
  in_content :: string
  in_wants_stream :: bool

subsection \<open>The non-streaming reply path\<close>

text \<open>
  An \<^verbatim>\<open>asyncio.Future\<close> is pending, holds a result, or is cancelled. The handler and the
  dict \<^verbatim>\<open>_pending_responses\<close> share the future object, so futures live in a store
  (\<open>futures\<close>, addressed by position) and the dict maps a chat id to an address.
  \<open>published\<close> collects what the channel has put on the bus.
\<close>

datatype future = Pending | Done string | Cancelled

record channel =
  pending_responses :: "string \<rightharpoonup> nat"
  futures :: "future list"
  published :: "InboundMessage list"

text \<open>
  \<^verbatim>\<open>OpenAPIChannel._on_outbound\<close>: pop the future registered for the chat id, and give it
  the content if it is still pending.
\<close>

definition on_outbound :: "OutboundMessage \<Rightarrow> channel \<Rightarrow> channel" where
  "on_outbound msg ch =
     (case pending_responses ch (out_chat_id msg) of
        None \<Rightarrow> ch
      | Some f \<Rightarrow>
          let ch1 = ch\<lparr>pending_responses := (pending_responses ch)(out_chat_id msg := None)\<rparr>
          in if futures ch1 ! f = Pending
             then ch1\<lparr>futures := (futures ch1)[f := Done (out_content msg)]\<rparr>
             else ch1)"

text \<open>The bus delivering a sequence of outbound messages to the channel, in order.\<close>

fun deliver :: "OutboundMessage list \<Rightarrow> channel \<Rightarrow> channel" where
  "deliver [] ch = ch"
| "deliver (m # ms) ch = deliver ms (on_outbound m ch)"

text \<open>
  Modelled from the spec: \<^verbatim>\<open>BaseChannel._handle_message\<close> is defined in
  nanobot.channels.base, which is not among the sources. By the spec the non-streaming
  path "publishes an \<^verbatim>\<open>InboundMessage\<close> with the extracted text"; the message goes to the
  bus and the channel's own state is otherwise untouched.
\<close>

definition handle_message :: "json \<Rightarrow> string \<Rightarrow> string \<Rightarrow> channel \<Rightarrow> channel" where
  "handle_message sender_id chat_id content ch =
     ch\<lparr>published := published ch @
          [\<lparr>in_channel = ''openapi'', in_sender_id = sender_id, in_chat_id = chat_id,
            in_content = content, in_wants_stream = False\<rparr>]\<rparr>"

text \<open>
  \<^verbatim>\<open>_handle_non_stream\<close> up to its \<^verbatim>\<open>await asyncio.wait_for(...)\<close>: it creates the future,
  registers it under the chat id and sends the message to the bus. It returns the
  address of the future it will wait on.
\<close>

definition non_stream_begin :: "string \<Rightarrow> json \<Rightarrow> string \<Rightarrow> channel \<Rightarrow> nat \<times> channel" where
  "non_stream_begin chat_id user content ch =
     (let f = length (futures ch)
      in (f, handle_message user chat_id content
               (ch\<lparr>pending_responses := (pending_responses ch)(chat_id \<mapsto> f),
                   futures := futures ch @ [Pending]\<rparr>)))"

text \<open>
  The rest of \<^verbatim>\<open>_handle_non_stream\<close>, from the moment the wait ends. \<open>timer_fired\<close> says
  whether \<^verbatim>\<open>config.timeout\<close> seconds have passed. A future holding a result gives the
  200 response; a cancelled one gives 499; a pending one whose timer has fired is
  cancelled by \<^verbatim>\<open>wait_for\<close>, which raises \<^verbatim>\<open>TimeoutError\<close>: the handler pops the chat id
  and answers 504. A pending future whose timer has not fired keeps the handler
  suspended (\<open>None\<close>). \<open>created\<close> is \<^verbatim>\<open>int(time.time())\<close>. The token estimates count
  the characters of the texts.
\<close>

definition completion_response ::
  "OpenAPIConfig \<Rightarrow> string \<Rightarrow> int \<Rightarrow> string \<Rightarrow> string \<Rightarrow> response" where
  "completion_response cfg request_id created content response_content =
     \<lparr>status = 200,
      payload = JDict
        [(''id'', JStr request_id),
         (''object'', JStr ''chat.completion''),
         (''created'', JInt created),
         (''model'', JStr (model_name cfg)),
         (''choices'', JList
            [JDict [(''index'', JInt 0),
                    (''message'', JDict [(''role'', JStr ''assistant''),
                                        (''content'', JStr response_content)]),
                    (''finish_reason'', JStr ''stop'')]]),
         (''usage'', JDict
            [(''prompt_tokens'', JInt (int (length content) div 4)),
             (''completion_tokens'', JInt (int (length response_content) div 4)),
             (''total_tokens'',
                JInt ((int (length content) + int (length response_content)) div 4))])]\<rparr>"

definition non_stream_resume ::
  "OpenAPIConfig \<Rightarrow> string \<Rightarrow> int \<Rightarrow> string \<Rightarrow> string \<Rightarrow> nat \<Rightarrow> bool \<Rightarrow> channel
     \<Rightarrow> (response \<times> channel) option" where
  "non_stream_resume cfg request_id created chat_id content f timer_fired ch =
     (case futures ch ! f of
        Done response_content \<Rightarrow>
          Some (completion_response cfg request_id created content response_content, ch)
      | Cancelled \<Rightarrow>
          Some (error_response 499 ''Request cancelled'' ''cancelled_error'', ch)
      | Pending \<Rightarrow>
          if timer_fired then
            Some (error_response 504 ''Request timeout'' ''timeout_error'',
                  ch\<lparr>futures := (futures ch)[f := Cancelled],
                     pending_responses := (pending_responses ch)(chat_id := None)\<rparr>)
          else None)"

text \<open>
  Every address in \<^verbatim>\<open>_pending_responses\<close> is that of an existing future: the dict holds
  references to objects, which cannot dangle.
\<close>

definition channel_ok :: "channel \<Rightarrow> bool" where
  "channel_ok ch = (\<forall>c f. pending_responses ch c = Some f \<longrightarrow> f < length (futures ch))"

definition empty_channel :: channel where
  "empty_channel = \<lparr>pending_responses = Map.empty, futures = [], published = []\<rparr>"

subsection \<open>The streaming reply path\<close>

text \<open>
  \<^verbatim>\<open>stream_callback\<close>: the chunk goes on the queue, followed by the termination signal
  \<^verbatim>\<open>None\<close> when the chunk is final. The queue is unbounded, so \<^verbatim>\<open>put\<close> never waits.
\<close>

definition stream_callback :: "StreamChunk \<Rightarrow> StreamChunk option list \<Rightarrow> StreamChunk option list" where
  "stream_callback chunk chunk_queue =
     (let q1 = chunk_queue @ [Some chunk]
      in if is_final chunk then q1 @ [None] else q1)"

text \<open>The dict \<^verbatim>\<open>sse_data\<close> that the loop of \<^verbatim>\<open>_handle_stream\<close> builds for one chunk.\<close>

definition sse_data :: "OpenAPIConfig \<Rightarrow> string \<Rightarrow> int \<Rightarrow> StreamChunk \<Rightarrow> json" where
  "sse_data cfg request_id created chunk =
     (let delta0 = (if sc_content chunk \<noteq> [] then [(''content'', JStr (sc_content chunk))] else []);
          reason = (case finish_reason chunk of
                      None \<Rightarrow> ''stop''
                    | Some r \<Rightarrow> if r = [] then ''stop'' else r);
          choice = (if is_final chunk
                    then [(''index'', JInt 0), (''delta'', JDict []), (''finish_reason'', JStr reason)]
                    else [(''index'', JInt 0), (''delta'', JDict delta0), (''finish_reason'', JNull)])
      in JDict [(''id'', JStr request_id),
                (''object'', JStr ''chat.completion.chunk''),
                (''created'', JInt created),
                (''model'', JStr (model_name cfg)),
                (''choices'', JList [JDict choice])])"

definition sse_frame :: "string \<Rightarrow> string" where
  "sse_frame data = ''data: '' @ data @ [CHR 0x0A, CHR 0x0A]"

text \<open>
  The \<^verbatim>\<open>while True\<close> loop of \<^verbatim>\<open>_handle_stream\<close>, over what the queue delivers, in
  order. When nothing more is delivered (\<open>[]\<close>), \<^verbatim>\<open>wait_for\<close> times out: the loop writes
  the timeout frame and ends. The result is the list of writes to the response.
  \<open>dumps\<close> is \<^verbatim>\<open>json.dumps\<close>; \<open>clock n\<close> is \<^verbatim>\<open>int(time.time())\<close> at the n-th frame.
  Writes to a client that has gone away raise; the model is of a connected client.
\<close>

fun sse_loop ::
  "(json \<Rightarrow> string) \<Rightarrow> OpenAPIConfig \<Rightarrow> string \<Rightarrow> (nat \<Rightarrow> int) \<Rightarrow> nat
     \<Rightarrow> StreamChunk option list \<Rightarrow> string list" where
  "sse_loop dumps cfg request_id clock n [] =
     [sse_frame (dumps (JDict [(''error'', JDict [(''message'', JStr ''Stream timeout''),
                                                   (''type'', JStr ''timeout_error'')])]))]"
| "sse_loop dumps cfg request_id clock n (None # rest) = []"
| "sse_loop dumps cfg request_id clock n (Some chunk # rest) =
     sse_frame (dumps (sse_data cfg request_id (clock n) chunk))
       # sse_loop dumps cfg request_id clock (Suc n) rest"

text \<open>
  \<^verbatim>\<open>_handle_stream\<close>: \<open>chunks\<close> are the chunks the agent passes to the callback of the
  published message, in order; the body is what the loop writes, then the done marker.
\<close>

definition handle_stream ::
  "(json \<Rightarrow> string) \<Rightarrow> OpenAPIConfig \<Rightarrow> string \<Rightarrow> (nat \<Rightarrow> int) \<Rightarrow> StreamChunk list
     \<Rightarrow> string list" where
  "handle_stream dumps cfg request_id clock chunks =
     sse_loop dumps cfg request_id clock 0 (foldl (\<lambda>q c. stream_callback c q) [] chunks)
       @ [sse_frame ''[DONE]'']"

section \<open>Calendar dates and decimal numerals\<close>

text \<open>
  A \<^verbatim>\<open>datetime.date\<close> is its proleptic Gregorian ordinal (\<^verbatim>\<open>date.toordinal()\<close>, day 1 is
  0001-01-01, the last day is 9999-12-31). Subtracting a \<^verbatim>\<open>timedelta\<close> raises
  \<^verbatim>\<open>OverflowError\<close> when the timedelta or the resulting date is out of range.
\<close>

type_synonym date = int

definition date_minus :: "date \<Rightarrow> int \<Rightarrow> exn + date" where
  "date_minus d n =
     (if n < - 999999999 \<or> 999999999 < n then Inl OverflowError
      else if 1 \<le> d - n \<and> d - n \<le> 3652059 then Inr (d - n)
      else Inl OverflowError)"

text \<open>Year, month and day of an ordinal (the civil-from-days computation).\<close>

definition civil :: "date \<Rightarrow> int \<times> int \<times> int" where
  "civil d =
     (let z = d + 305;
          era = z div 146097;
          doe = z mod 146097;
          yoe = (doe - doe div 1460 + doe div 36524 - doe div 146096) div 365;
          doy = doe - (365 * yoe + yoe div 4 - yoe div 100);
          mp = (5 * doy + 2) div 153;
          dd = doy - (153 * mp + 2) div 5 + 1;
          m = (if mp < 10 then mp + 3 else mp - 9);
          y = yoe + era * 400 + (if m \<le> 2 then 1 else 0)
      in (y, m, dd))"

definition digit :: "int \<Rightarrow> char" where
  "digit n = ''0123456789'' ! nat n"

definition pad2 :: "int \<Rightarrow> string" where
  "pad2 n = [digit (n div 10 mod 10), digit (n mod 10)]"

definition pad4 :: "int \<Rightarrow> string" where
  "pad4 n = [digit (n div 1000 mod 10), digit (n div 100 mod 10), digit (n div 10 mod 10),
             digit (n mod 10)]"

text \<open>
  The text \<^verbatim>\<open>YYYY-MM-DD\<close> of a date: \<^verbatim>\<open>strftime("%Y-%m-%d")\<close> in the file store and
  \<^verbatim>\<open>str(entry_date)\<close> in the relational store.
\<close>

definition date_str :: "date \<Rightarrow> string" where
  "date_str d = (case civil d of (y, m, dd) \<Rightarrow> pad4 y @ ''-'' @ pad2 m @ ''-'' @ pad2 dd)"

text \<open>
  Modelled from the spec: \<^verbatim>\<open>today_date()\<close> is imported from nanobot.utils.helpers, which is
  not among the sources. By the spec the daily file is \<^verbatim>\<open>memory/YYYY-MM-DD.md\<close>, one per
  calendar day in local time, and its header is \<^verbatim>\<open># YYYY-MM-DD\<close>: \<^verbatim>\<open>today_date()\<close> is the
  text of today's date.
\<close>

definition today_date :: "date \<Rightarrow> string" where
  "today_date day = date_str day"

text \<open>Python's \<^verbatim>\<open>str\<close> of an integer, as an f-string inserts it.\<close>

fun str_nat :: "nat \<Rightarrow> string" where
  "str_nat n = (if n < 10 then [digit (int n)] else str_nat (n div 10) @ [digit (int (n mod 10))])"

declare str_nat.simps [simp del]

definition str_int :: "int \<Rightarrow> string" where
  "str_int i = (if i < 0 then ''-'' @ str_nat (nat (- i)) else str_nat (nat i))"

section \<open>File memory store (nanobot/agent/memory.py)\<close>

text \<open>
  The state of a \<^verbatim>\<open>MemoryStore\<close> is the content of its directory \<^verbatim>\<open>memory/\<close>: a map from
  file name to text. Reading and writing a file is taken to succeed. The clock enters as
  today's date.
\<close>

type_synonym files = "string \<rightharpoonup> string"

definition get_today_file :: "date \<Rightarrow> string" where
  "get_today_file today = today_date today @ ''.md''"

definition memory_file :: string where
  "memory_file = ''MEMORY.md''"

definition file_read_today :: "date \<Rightarrow> files \<Rightarrow> string" where
  "file_read_today today fs = (case fs (get_today_file today) of Some text \<Rightarrow> text | None \<Rightarrow> [])"

definition file_append_today :: "date \<Rightarrow> string \<Rightarrow> files \<Rightarrow> files" where
  "file_append_today today content fs =
     (let today_file = get_today_file today;
          content' = (case fs today_file of
                        Some existing \<Rightarrow> existing @ [CHR 0x0A] @ content
                      | None \<Rightarrow> (''# '' @ today_date today @ [CHR 0x0A, CHR 0x0A]) @ content)
      in fs(today_file \<mapsto> content'))"

definition file_read_long_term :: "files \<Rightarrow> string" where
  "file_read_long_term fs = (case fs memory_file of Some text \<Rightarrow> text | None \<Rightarrow> [])"

definition file_write_long_term :: "string \<Rightarrow> files \<Rightarrow> files" where
  "file_write_long_term content fs = fs(memory_file \<mapsto> content)"

text \<open>
  The loop \<^verbatim>\<open>for i in range(days)\<close> of \<^verbatim>\<open>get_recent_memories\<close>, over the values of
  \<^verbatim>\<open>i\<close>: the files that exist, newest first.
\<close>

fun collect_recent :: "date \<Rightarrow> files \<Rightarrow> nat list \<Rightarrow> exn + string list" where
  "collect_recent today fs [] = Inr []"
| "collect_recent today fs (i # rest) =
     (case date_minus today (int i) of
        Inl e \<Rightarrow> Inl e
      | Inr d \<Rightarrow>
          (case collect_recent today fs rest of
             Inl e \<Rightarrow> Inl e
           | Inr memories \<Rightarrow>
               Inr (case fs (date_str d @ ''.md'') of
                      Some content \<Rightarrow> content # memories
                    | None \<Rightarrow> memories)))"

definition hr_separator :: string where
  "hr_separator = [CHR 0x0A, CHR 0x0A] @ ''---'' @ [CHR 0x0A, CHR 0x0A]"

definition file_get_recent_memories :: "date \<Rightarrow> int \<Rightarrow> files \<Rightarrow> exn + string" where
  "file_get_recent_memories today days fs =
     (case collect_recent today fs [0 ..< nat days] of
        Inl e \<Rightarrow> Inl e
      | Inr memories \<Rightarrow> Inr (join hr_separator memories))"

text \<open>
  The composition shared by \<^verbatim>\<open>get_memory_context\<close> of both stores: the sections that are
  not empty, joined by a blank line.
\<close>

definition long_term_section :: "string \<Rightarrow> string list" where
  "long_term_section long_term =
     (if long_term \<noteq> [] then [''## Long-term Memory'' @ [CHR 0x0A] @ long_term] else [])"

definition today_section :: "string \<Rightarrow> string list" where
  "today_section today_notes =
     (if today_notes \<noteq> [] then [''## Today's Notes'' @ [CHR 0x0A] @ today_notes] else [])"

definition file_get_memory_context :: "date \<Rightarrow> files \<Rightarrow> string" where
  "file_get_memory_context today fs =
     join [CHR 0x0A, CHR 0x0A]
       (long_term_section (file_read_long_term fs) @ today_section (file_read_today today fs))"

section \<open>Embedding service (baibo/agent/embedding.py)\<close>

text \<open>
  An embedding is a list of floats; a float is the real number it denotes. The request
  to the embedding API (\<^verbatim>\<open>litellm.aembedding\<close>) leaves the process, so its answer is a
  parameter of the model: \<open>aembedding\<close> of the environment, given the service's settings
  and the input texts, raises or returns one vector per input.
\<close>

type_synonym vector = "real list"

record EmbeddingService =
  es_model :: string
  es_dimensions :: int
  es_api_base :: "string option"
  es_api_key :: "string option"

section \<open>The database: tables and the durable queue\<close>

text \<open>
  The rows of the three table families, with the columns of the \<^verbatim>\<open>CREATE TABLE\<close>
  statements in \<^verbatim>\<open>PostgresMemoryStore._ensure_schema\<close>. The long-term table has no
  \<^verbatim>\<open>updated_at\<close> column. Timestamps are seconds of the clock.
\<close>

record daily_row =
  d_id :: int
  d_entry_date :: date
  d_content :: string
  d_embedding :: "vector option"
  d_created_at :: nat
  d_updated_at :: nat

record long_term_row =
  lt_id :: int
  lt_content :: string
  lt_embedding :: "vector option"
  lt_version :: int
  lt_created_at :: nat

record conversation_row =
  c_id :: int
  c_session_key :: string
  c_role :: string
  c_content :: string
  c_embedding :: "vector option"
  c_created_at :: nat
  c_updated_at :: nat

datatype table_rows =
    DailyRows "daily_row list"
  | LongTermRows "long_term_row list"
  | ConversationRows "conversation_row list"

text \<open>
  A table: the dimension of its \<^verbatim>\<open>vector(dim)\<close> column, the last value its \<^verbatim>\<open>BIGSERIAL\<close>
  sequence has given out, and its rows in insertion order.
\<close>

record table =
  t_dim :: int
  t_seq :: int
  t_rows :: table_rows

text \<open>
  A queue message \<^verbatim>\<open>{table, id, content, dimensions}\<close> as the producers of this
  repository build it, and the queue's own columns: message id, the time from which the
  message is visible, and the number of reads.
\<close>

record job =
  j_table :: string
  j_id :: int
  j_content :: string
  j_dimensions :: int

record qmsg =
  msg_id :: int
  vt :: nat
  read_ct :: nat
  message :: job

text \<open>
  The database: tables by name, the queue \<^verbatim>\<open>memory_embedding\<close> (taken to exist) in
  message id order, the queue's id sequence and its archive. A statement fails for the
  reasons written into its definition below; connections and the calls of the queue are
  taken to succeed. A result \<open>Inl\<close> says that the call raises, and nothing about the
  database afterwards.
\<close>

record database =
  tables :: "string \<rightharpoonup> table"
  queue :: "qmsg list"
  q_seq :: int
  archive :: "qmsg list"

definition empty_database :: database where
  "empty_database = \<lparr>tables = Map.empty, queue = [], q_seq = 0, archive = []\<rparr>"

text \<open>
  A row returned by the search routine \<^verbatim>\<open>memory_search_dim<N>\<close>, and the dict
  \<^verbatim>\<open>semantic_search\<close> makes of it.
\<close>

record search_row =
  sr_source :: string
  sr_source_id :: int
  sr_content :: string
  sr_entry_date :: "date option"
  sr_similarity :: real

record hit =
  h_source :: string
  h_source_id :: int
  h_content :: string
  h_entry_date :: "string option"
  h_similarity :: real

text \<open>
  The environment of one call: the clock (\<open>now\<close> in seconds, \<open>today\<close> the date, the same
  for the process and the database), the embedding API, the result of the search routine
  that the database runs (nearest-neighbour search over float vectors), and Python's
  formatting \<^verbatim>\<open>f"{x:.2f}"\<close> of a float.
\<close>

record env =
  now :: nat
  today :: date
  aembedding :: "EmbeddingService \<Rightarrow> string list \<Rightarrow> exn + vector list"
  search_routine :: "database \<Rightarrow> string \<Rightarrow> vector \<Rightarrow> int \<Rightarrow> exn + search_row list"
  format_2f :: "real \<Rightarrow> string"

text \<open>\<^verbatim>\<open>EmbeddingService.embed\<close>: one input, and \<^verbatim>\<open>response.data[0]["embedding"]\<close>.\<close>

definition embed :: "env \<Rightarrow> EmbeddingService \<Rightarrow> string \<Rightarrow> exn + vector" where
  "embed e svc text =
     (case aembedding e svc [text] of
        Inl x \<Rightarrow> Inl x
      | Inr [] \<Rightarrow> Inl IndexError
      | Inr (v # _) \<Rightarrow> Inr v)"

definition embed_batch :: "env \<Rightarrow> EmbeddingService \<Rightarrow> string list \<Rightarrow> exn + vector list" where
  "embed_batch e svc texts = (if texts = [] then Inr [] else aembedding e svc texts)"

subsection \<open>Queue operations (pgmq)\<close>

text \<open>
  \<^verbatim>\<open>pgmq.send\<close> appends a message that is visible at once. \<^verbatim>\<open>pgmq.read(queue, vt, 1)\<close>
  takes the first visible message, makes it invisible for \<open>vt\<close> seconds and returns it
  (with the new queue). \<^verbatim>\<open>pgmq.archive\<close> moves a message from the queue to the archive.
\<close>

definition pgmq_send :: "env \<Rightarrow> job \<Rightarrow> database \<Rightarrow> database" where
  "pgmq_send e j db =
     db\<lparr>q_seq := q_seq db + 1,
        queue := queue db @ [\<lparr>msg_id = q_seq db + 1, vt = now e, read_ct = 0, message = j\<rparr>]\<rparr>"

fun pgmq_read :: "nat \<Rightarrow> nat \<Rightarrow> qmsg list \<Rightarrow> (qmsg \<times> qmsg list) option" where
  "pgmq_read t vts [] = None"
| "pgmq_read t vts (m # ms) =
     (if vt m \<le> t then
        let m' = m\<lparr>vt := t + vts, read_ct := read_ct m + 1\<rparr> in Some (m', m' # ms)
      else
        (case pgmq_read t vts ms of
           None \<Rightarrow> None
         | Some (r, ms') \<Rightarrow> Some (r, m # ms')))"

definition pgmq_archive :: "int \<Rightarrow> database \<Rightarrow> database" where
  "pgmq_archive i db =
     db\<lparr>queue := filter (\<lambda>m. msg_id m \<noteq> i) (queue db),
        archive := archive db @ filter (\<lambda>m. msg_id m = i) (queue db)\<rparr>"

subsection \<open>Statements on the tables\<close>

text \<open>
  \<^verbatim>\<open>INSERT INTO <daily> (content) VALUES (%s) RETURNING id\<close>: the id is the next value of
  the sequence, the date is \<^verbatim>\<open>CURRENT_DATE\<close>, the embedding is null. The statement fails
  when the table does not exist or is not a daily table, when the sequence is exhausted
  and when the primary key exists already.
\<close>

definition sql_insert_daily :: "env \<Rightarrow> string \<Rightarrow> string \<Rightarrow> database \<Rightarrow> exn + int \<times> database" where
  "sql_insert_daily e tname content db =
     (case tables db tname of
        None \<Rightarrow> Inl (DbError ''undefined table'')
      | Some t \<Rightarrow>
          (case t_rows t of
             DailyRows rs \<Rightarrow>
               let new_id = t_seq t + 1 in
               if 9223372036854775807 < new_id then Inl (DbError ''sequence exhausted'')
               else if new_id \<in> d_id ` set rs then Inl (DbError ''unique violation'')
               else
                 Inr (new_id,
                      db\<lparr>tables := (tables db)(tname \<mapsto>
                           t\<lparr>t_seq := new_id,
                             t_rows := DailyRows (rs @
                               [\<lparr>d_id = new_id, d_entry_date = today e, d_content = content,
                                 d_embedding = None, d_created_at = now e,
                                 d_updated_at = now e\<rparr>])\<rparr>)\<rparr>)
           | _ \<Rightarrow> Inl (DbError ''undefined column'')))"

text \<open>
  \<^verbatim>\<open>SELECT COALESCE(MAX(version), 0) + 1\<close> on the long-term table; \<^verbatim>\<open>version\<close> is a 32-bit
  \<^verbatim>\<open>INT\<close>, and the addition fails beyond its range.
\<close>

fun sql_max :: "int list \<Rightarrow> int option" where
  "sql_max [] = None"
| "sql_max (x # xs) = (case sql_max xs of None \<Rightarrow> Some x | Some m \<Rightarrow> Some (max x m))"

definition sql_next_version :: "string \<Rightarrow> database \<Rightarrow> exn + int" where
  "sql_next_version tname db =
     (case tables db tname of
        None \<Rightarrow> Inl (DbError ''undefined table'')
      | Some t \<Rightarrow>
          (case t_rows t of
             LongTermRows rs \<Rightarrow>
               let v = (case sql_max (map lt_version rs) of None \<Rightarrow> 0 | Some m \<Rightarrow> m) in
               if 2147483647 < v + 1 then Inl (DbError ''integer out of range'') else Inr (v + 1)
           | _ \<Rightarrow> Inl (DbError ''undefined column'')))"

text \<open>\<^verbatim>\<open>INSERT INTO <long_term> (content, version) VALUES (%s, %s) RETURNING id\<close>.\<close>

definition sql_insert_long_term ::
  "env \<Rightarrow> string \<Rightarrow> string \<Rightarrow> int \<Rightarrow> database \<Rightarrow> exn + int \<times> database" where
  "sql_insert_long_term e tname content version db =
     (case tables db tname of
        None \<Rightarrow> Inl (DbError ''undefined table'')
      | Some t \<Rightarrow>
          (case t_rows t of
             LongTermRows rs \<Rightarrow>
               let new_id = t_seq t + 1 in
               if 9223372036854775807 < new_id then Inl (DbError ''sequence exhausted'')
               else if new_id \<in> lt_id ` set rs then Inl (DbError ''unique violation'')
               else
                 Inr (new_id,
                      db\<lparr>tables := (tables db)(tname \<mapsto>
                           t\<lparr>t_seq := new_id,
                             t_rows := LongTermRows (rs @
                               [\<lparr>lt_id = new_id, lt_content = content, lt_embedding = None,
                                 lt_version = version, lt_created_at = now e\<rparr>])\<rparr>)\<rparr>)
           | _ \<Rightarrow> Inl (DbError ''undefined column'')))"

text \<open>
  \<^verbatim>\<open>UPDATE <table> SET embedding = %s::vector, updated_at = now() WHERE id = %s\<close>, the
  statement of the embedding worker. It fails when the table does not exist, when the
  table has no \<^verbatim>\<open>updated_at\<close> column (the long-term table), and when the vector does not
  have the dimension of the table's \<^verbatim>\<open>vector(dim)\<close> column. Otherwise it sets the two
  columns of the rows with that id (none, when no row has it).
\<close>

definition sql_update_embedding ::
  "env \<Rightarrow> string \<Rightarrow> int \<Rightarrow> vector \<Rightarrow> database \<Rightarrow> exn + database" where
  "sql_update_embedding e tname record_id vec db =
     (case tables db tname of
        None \<Rightarrow> Inl (DbError ''undefined table'')
      | Some t \<Rightarrow>
          (case t_rows t of
             LongTermRows rs \<Rightarrow> Inl (DbError ''undefined column updated_at'')
           | DailyRows rs \<Rightarrow>
               if int (length vec) \<noteq> t_dim t then Inl (DbError ''vector dimension'')
               else Inr (db\<lparr>tables := (tables db)(tname \<mapsto>
                      t\<lparr>t_rows := DailyRows (map (\<lambda>r. if d_id r = record_id
                            then r\<lparr>d_embedding := Some vec, d_updated_at := now e\<rparr> else r) rs)\<rparr>)\<rparr>)
           | ConversationRows rs \<Rightarrow>
               if int (length vec) \<noteq> t_dim t then Inl (DbError ''vector dimension'')
               else Inr (db\<lparr>tables := (tables db)(tname \<mapsto>
                      t\<lparr>t_rows := ConversationRows (map (\<lambda>r. if c_id r = record_id
                            then r\<lparr>c_embedding := Some vec, c_updated_at := now e\<rparr> else r) rs)\<rparr>)\<rparr>)))"

section \<open>Relational memory store (nanobot/agent/memory_pg.py)\<close>

record PostgresMemoryStore =
  dimensions :: int
  semantic_search_limit :: int
  embedding_service :: "EmbeddingService option"

definition daily_table :: "PostgresMemoryStore \<Rightarrow> string" where
  "daily_table st = ''memory_daily_dim'' @ str_int (dimensions st)"

definition long_term_table :: "PostgresMemoryStore \<Rightarrow> string" where
  "long_term_table st = ''memory_long_term_dim'' @ str_int (dimensions st)"

definition conversation_table :: "PostgresMemoryStore \<Rightarrow> string" where
  "conversation_table st = ''memory_conversation_dim'' @ str_int (dimensions st)"

definition search_func :: "PostgresMemoryStore \<Rightarrow> string" where
  "search_func st = ''memory_search_dim'' @ str_int (dimensions st)"

text \<open>
  \<^verbatim>\<open>_ensure_schema\<close>: each \<^verbatim>\<open>CREATE TABLE IF NOT EXISTS\<close> adds the table when no table
  has the name. (Indexes and the search routine do not change what the statements of
  the store return, and are not part of the state.)
\<close>

definition create_table_if_not_exists :: "string \<Rightarrow> table \<Rightarrow> database \<Rightarrow> database" where
  "create_table_if_not_exists tname t db =
     (case tables db tname of
        None \<Rightarrow> db\<lparr>tables := (tables db)(tname \<mapsto> t)\<rparr>
      | Some _ \<Rightarrow> db)"

definition ensure_schema :: "PostgresMemoryStore \<Rightarrow> database \<Rightarrow> database" where
  "ensure_schema st db =
     create_table_if_not_exists (conversation_table st)
       \<lparr>t_dim = dimensions st, t_seq = 0, t_rows = ConversationRows []\<rparr>
       (create_table_if_not_exists (long_term_table st)
          \<lparr>t_dim = dimensions st, t_seq = 0, t_rows = LongTermRows []\<rparr>
          (create_table_if_not_exists (daily_table st)
             \<lparr>t_dim = dimensions st, t_seq = 0, t_rows = DailyRows []\<rparr> db))"

text \<open>
  \<^verbatim>\<open>read_today\<close>: \<^verbatim>\<open>SELECT content ... WHERE entry_date = CURRENT_DATE ORDER BY id\<close>, the
  contents joined by newlines.
\<close>

definition select_daily :: "string \<Rightarrow> database \<Rightarrow> exn + daily_row list" where
  "select_daily tname db =
     (case tables db tname of
        None \<Rightarrow> Inl (DbError ''undefined table'')
      | Some t \<Rightarrow>
          (case t_rows t of
             DailyRows rs \<Rightarrow> Inr rs
           | _ \<Rightarrow> Inl (DbError ''undefined column'')))"

definition pg_read_today :: "env \<Rightarrow> PostgresMemoryStore \<Rightarrow> database \<Rightarrow> exn + string" where
  "pg_read_today e st db =
     (case select_daily (daily_table st) db of
        Inl x \<Rightarrow> Inl x
      | Inr rs \<Rightarrow>
          let results = sort_key d_id (filter (\<lambda>r. d_entry_date r = today e) rs)
          in if results = [] then Inr [] else Inr (join [CHR 0x0A] (map d_content results)))"

text \<open>\<^verbatim>\<open>append_today\<close>: insert the row, then enqueue the embedding job.\<close>

definition pg_append_today :: "env \<Rightarrow> PostgresMemoryStore \<Rightarrow> string \<Rightarrow> database \<Rightarrow> exn + database" where
  "pg_append_today e st content db =
     (case sql_insert_daily e (daily_table st) content db of
        Inl x \<Rightarrow> Inl x
      | Inr (record_id, db1) \<Rightarrow>
          Inr (pgmq_send e \<lparr>j_table = daily_table st, j_id = record_id, j_content = content,
                            j_dimensions = dimensions st\<rparr> db1))"

text \<open>
  \<^verbatim>\<open>read_long_term\<close>: \<^verbatim>\<open>SELECT content ... ORDER BY version DESC LIMIT 1\<close>. Among rows of
  equal version the database may return any; the model takes the one inserted first.
\<close>

definition select_long_term :: "string \<Rightarrow> database \<Rightarrow> exn + long_term_row list" where
  "select_long_term tname db =
     (case tables db tname of
        None \<Rightarrow> Inl (DbError ''undefined table'')
      | Some t \<Rightarrow>
          (case t_rows t of
             LongTermRows rs \<Rightarrow> Inr rs
           | _ \<Rightarrow> Inl (DbError ''undefined column'')))"

definition pg_read_long_term :: "PostgresMemoryStore \<Rightarrow> database \<Rightarrow> exn + string" where
  "pg_read_long_term st db =
     (case select_long_term (long_term_table st) db of
        Inl x \<Rightarrow> Inl x
      | Inr rs \<Rightarrow>
          (case sort_key (\<lambda>r. - lt_version r) rs of
             [] \<Rightarrow> Inr []
           | r # _ \<Rightarrow> Inr (lt_content r)))"

text \<open>\<^verbatim>\<open>write_long_term\<close>: next version, insert, enqueue.\<close>

definition pg_write_long_term ::
  "env \<Rightarrow> PostgresMemoryStore \<Rightarrow> string \<Rightarrow> database \<Rightarrow> exn + database" where
  "pg_write_long_term e st content db =
     (case sql_next_version (long_term_table st) db of
        Inl x \<Rightarrow> Inl x
      | Inr next_version \<Rightarrow>
          (case sql_insert_long_term e (long_term_table st) content next_version db of
             Inl x \<Rightarrow> Inl x
           | Inr (record_id, db1) \<Rightarrow>
               Inr (pgmq_send e \<lparr>j_table = long_term_table st, j_id = record_id,
                                 j_content = content, j_dimensions = dimensions st\<rparr> db1)))"

text \<open>
  \<^verbatim>\<open>get_recent_memories\<close>: the rows from the cutoff date on, ordered by date (newest
  first) and id; \<^verbatim>\<open>by_date\<close> is the dict of the loop, in insertion order.
\<close>

fun setdefault_append :: "string \<Rightarrow> string \<Rightarrow> (string \<times> string list) list \<Rightarrow> (string \<times> string list) list" where
  "setdefault_append k v [] = [(k, [v])]"
| "setdefault_append k v ((k', vs) # rest) =
     (if k = k' then (k', vs @ [v]) # rest else (k', vs) # setdefault_append k v rest)"

definition pg_get_recent_memories ::
  "env \<Rightarrow> PostgresMemoryStore \<Rightarrow> int \<Rightarrow> database \<Rightarrow> exn + string" where
  "pg_get_recent_memories e st days db =
     (case date_minus (today e) days of
        Inl x \<Rightarrow> Inl x
      | Inr cutoff \<Rightarrow>
          (case select_daily (daily_table st) db of
             Inl x \<Rightarrow> Inl x
           | Inr rs \<Rightarrow>
               let results = sort_key (\<lambda>r. (- d_entry_date r, d_id r))
                               (filter (\<lambda>r. cutoff \<le> d_entry_date r) rs)
               in if results = [] then Inr []
                  else
                    let by_date = foldl (\<lambda>acc r. setdefault_append (date_str (d_entry_date r))
                                                    (d_content r) acc) [] results;
                        parts = map (\<lambda>(ds, entries).
                                   ''# '' @ ds @ [CHR 0x0A, CHR 0x0A] @ join [CHR 0x0A] entries) by_date
                    in Inr (join hr_separator parts)))"

text \<open>\<^verbatim>\<open>get_memory_context\<close>: as in the file store.\<close>

definition pg_get_memory_context :: "env \<Rightarrow> PostgresMemoryStore \<Rightarrow> database \<Rightarrow> exn + string" where
  "pg_get_memory_context e st db =
     (case pg_read_long_term st db of
        Inl x \<Rightarrow> Inl x
      | Inr long_term \<Rightarrow>
          (case pg_read_today e st db of
             Inl x \<Rightarrow> Inl x
           | Inr today_notes \<Rightarrow>
               Inr (join [CHR 0x0A, CHR 0x0A]
                      (long_term_section long_term @ today_section today_notes))))"

text \<open>
  \<^verbatim>\<open>semantic_search\<close>: \<^verbatim>\<open>limit or self.semantic_search_limit\<close>, the call of the search
  routine, and the rows as dicts.
\<close>

definition semantic_search ::
  "env \<Rightarrow> PostgresMemoryStore \<Rightarrow> vector \<Rightarrow> int option \<Rightarrow> database \<Rightarrow> exn + hit list" where
  "semantic_search e st query_embedding limit db =
     (let limit' = (case limit of
                      None \<Rightarrow> semantic_search_limit st
                    | Some l \<Rightarrow> if l = 0 then semantic_search_limit st else l)
      in case search_routine e db (search_func st) query_embedding limit' of
           Inl x \<Rightarrow> Inl x
         | Inr results \<Rightarrow>
             Inr (map (\<lambda>r. \<lparr>h_source = sr_source r, h_source_id = sr_source_id r,
                            h_content = sr_content r,
                            h_entry_date = map_option date_str (sr_entry_date r),
                            h_similarity = sr_similarity r\<rparr>) results))"

definition semantic_line :: "env \<Rightarrow> hit \<Rightarrow> string" where
  "semantic_line e r =
     (let date_info = (case h_entry_date r of
                         None \<Rightarrow> []
                       | Some d \<Rightarrow> if d = [] then [] else '' ('' @ d @ '')'');
          sim = format_2f e (h_similarity r)
      in ''- ['' @ h_source r @ date_info @ '' sim='' @ sim @ ''] '' @ h_content r)"

text \<open>
  \<^verbatim>\<open>get_memory_context_semantic\<close>. Without an embedding service (the attribute is missing
  or \<^verbatim>\<open>None\<close>), and when the embedding, the search or its result fails or is empty, the
  answer is that of \<^verbatim>\<open>get_memory_context\<close>.
\<close>

definition pg_get_memory_context_semantic ::
  "env \<Rightarrow> PostgresMemoryStore \<Rightarrow> string \<Rightarrow> database \<Rightarrow> exn + string" where
  "pg_get_memory_context_semantic e st query db =
     (case embedding_service st of
        None \<Rightarrow> pg_get_memory_context e st db
      | Some svc \<Rightarrow>
          (case embed e svc query of
             Inl x \<Rightarrow> pg_get_memory_context e st db
           | Inr query_embedding \<Rightarrow>
               (case semantic_search e st query_embedding None db of
                  Inl x \<Rightarrow> pg_get_memory_context e st db
                | Inr results \<Rightarrow>
                    if results = [] then pg_get_memory_context e st db
                    else
                      (case pg_read_long_term st db of
                         Inl x \<Rightarrow> Inl x
                       | Inr long_term \<Rightarrow>
                           (case pg_read_today e st db of
                              Inl x \<Rightarrow> Inl x
                            | Inr today_notes \<Rightarrow>
                                Inr (join [CHR 0x0A, CHR 0x0A]
                                  (long_term_section long_term
                                   @ [''## Relevant Memories (semantic)'' @ [CHR 0x0A]
                                        @ join [CHR 0x0A] (map (semantic_line e) results)]
                                   @ today_section today_notes)))))))"

text \<open>\<^verbatim>\<open>set_embedding_service\<close>.\<close>

definition set_embedding_service :: "EmbeddingService \<Rightarrow> PostgresMemoryStore \<Rightarrow> PostgresMemoryStore" where
  "set_embedding_service service st = st\<lparr>embedding_service := Some service\<rparr>"

section \<open>Embedding worker (baibo/agent/memory_worker.py)\<close>

record MemoryEmbeddingWorker =
  embedding :: EmbeddingService
  poll_interval :: nat

definition VISIBILITY_TIMEOUT :: nat where
  "VISIBILITY_TIMEOUT = 30"

text \<open>
  What a poll does outside the worker, in order: the call of the embedding service, the
  \<^verbatim>\<open>UPDATE\<close> statement sent to the database, the \<^verbatim>\<open>pgmq.archive\<close> call.
\<close>

datatype effect =
    EmbedCall string
  | SqlUpdate string int vector
  | SqlArchive int

text \<open>
  \<^verbatim>\<open>MemoryEmbeddingWorker._poll_once\<close>: the flag it returns, the effects, and the database
  afterwards. The read is committed when its connection block ends. The update and the
  archive share one connection block, so an exception there leaves the database as the
  read left it; every exception of the \<^verbatim>\<open>try\<close> block ends the poll with \<^verbatim>\<open>False\<close>.
\<close>

definition poll_once :: "env \<Rightarrow> MemoryEmbeddingWorker \<Rightarrow> database \<Rightarrow> bool \<times> effect list \<times> database" where
  "poll_once e w db =
     (case pgmq_read (now e) VISIBILITY_TIMEOUT (queue db) of
        None \<Rightarrow> (False, [], db)
      | Some (result, q') \<Rightarrow>
          let db1 = db\<lparr>queue := q'\<rparr>;
              msg = message result;
              table = j_table msg;
              record_id = j_id msg;
              content = j_content msg
          in case embed e (embedding w) content of
               Inl x \<Rightarrow> (False, [EmbedCall content], db1)
             | Inr vec \<Rightarrow>
                 (case sql_update_embedding e table record_id vec db1 of
                    Inl x \<Rightarrow> (False, [EmbedCall content, SqlUpdate table record_id vec], db1)
                  | Inr db2 \<Rightarrow>
                      (True,
                       [EmbedCall content, SqlUpdate table record_id vec,
                        SqlArchive (msg_id result)],
                       pgmq_archive (msg_id result) db2)))"

text \<open>
  A run of the worker's loop: one poll per element, each in the environment of its
  moment (the clock advances, the embedding API may answer differently).
\<close>

fun run_polls :: "(env \<times> MemoryEmbeddingWorker) list \<Rightarrow> database \<Rightarrow> database" where
  "run_polls [] db = db"
| "run_polls ((e, w) # ps) db = run_polls ps (snd (snd (poll_once e w db)))"

section \<open>The memory backend interface (nanobot/agent/memory_base.py)\<close>

text \<open>
  A \<^verbatim>\<open>MemoryBackend\<close> is one of the two stores; a call through the protocol goes to the
  method of the store at hand.
\<close>

datatype memory_backend =
    FileBackend files
  | PostgresBackend PostgresMemoryStore database

fun read_today :: "env \<Rightarrow> memory_backend \<Rightarrow> exn + string" where
  "read_today e (FileBackend fs) = Inr (file_read_today (today e) fs)"
| "read_today e (PostgresBackend st db) = pg_read_today e st db"

fun append_today :: "env \<Rightarrow> string \<Rightarrow> memory_backend \<Rightarrow> exn + memory_backend" where
  "append_today e content (FileBackend fs) =
     Inr (FileBackend (file_append_today (today e) content fs))"
| "append_today e content (PostgresBackend st db) =
     (case pg_append_today e st content db of
        Inl x \<Rightarrow> Inl x
      | Inr db' \<Rightarrow> Inr (PostgresBackend st db'))"


fun write_long_term :: "env \<Rightarrow> string \<Rightarrow> memory_backend \<Rightarrow> exn + memory_backend" where
  "write_long_term e content (FileBackend fs) = Inr (FileBackend (file_write_long_term content fs))"
| "write_long_term e content (PostgresBackend st db) =
     (case pg_write_long_term e st content db of
        Inl x \<Rightarrow> Inl x
      | Inr db' \<Rightarrow> Inr (PostgresBackend st db'))"

fun get_recent_memories :: "env \<Rightarrow> int \<Rightarrow> memory_backend \<Rightarrow> exn + string" where
  "get_recent_memories e days (FileBackend fs) = file_get_recent_memories (today e) days fs"
| "get_recent_memories e days (PostgresBackend st db) = pg_get_recent_memories e st days db"

fun get_memory_context :: "env \<Rightarrow> memory_backend \<Rightarrow> exn + string" where
  "get_memory_context e (FileBackend fs) = Inr (file_get_memory_context (today e) fs)"
| "get_memory_context e (PostgresBackend st db) = pg_get_memory_context e st db"

text \<open>
  Embedding jobs completing behind a backend: polls of the worker on the database of a
  relational store; a file store has no jobs.
\<close>

fun embedding_progress :: "(env \<times> MemoryEmbeddingWorker) list \<Rightarrow> memory_backend \<Rightarrow> memory_backend" where
  "embedding_progress ps (FileBackend fs) = FileBackend fs"
| "embedding_progress ps (PostgresBackend st db) = PostgresBackend st (run_polls ps db)"

text \<open>
  Rows get their ids from the table's sequence only (no statement of the repository
  supplies an id), so in every table no id is beyond the last value of the sequence.
\<close>

definition table_ok :: "table \<Rightarrow> bool" where
  "table_ok t =
     (case t_rows t of
        DailyRows rs \<Rightarrow> (\<forall>r \<in> set rs. d_id r \<le> t_seq t)
      | LongTermRows rs \<Rightarrow> (\<forall>r \<in> set rs. lt_id r \<le> t_seq t)
      | ConversationRows rs \<Rightarrow> (\<forall>r \<in> set rs. c_id r \<le> t_seq t))"

definition db_ok :: "database \<Rightarrow> bool" where
  "db_ok db = (\<forall>n t. tables db n = Some t \<longrightarrow> table_ok t)"

fun backend_ok :: "memory_backend \<Rightarrow> bool" where
  "backend_ok (FileBackend fs) = True"
| "backend_ok (PostgresBackend st db) = db_ok db"


text \<open>
  The queue gives each message the next value of its sequence as id: the ids of the
  queued and the archived messages are distinct and not beyond the sequence.
\<close>

definition queue_ok :: "database \<Rightarrow> bool" where
  "queue_ok db =
     (distinct (map msg_id (queue db @ archive db))
      \<and> (\<forall>m \<in> set (queue db @ archive db). msg_id m \<le> q_seq db))"

text \<open>
  Whether the job of a message goes through on a database: the embedding call returns a
  vector and the \<^verbatim>\<open>UPDATE\<close> succeeds.
\<close>

definition job_succeeds :: "env \<Rightarrow> MemoryEmbeddingWorker \<Rightarrow> database \<Rightarrow> job \<Rightarrow> bool" where
  "job_succeeds e w db j =
     (case embed e (embedding w) (j_content j) of
        Inl x \<Rightarrow> False
      | Inr vec \<Rightarrow>
          (case sql_update_embedding e (j_table j) (j_id j) vec db of
             Inl x \<Rightarrow> False
           | Inr db2 \<Rightarrow> True))"

text \<open>The same database with another \<^verbatim>\<open>dimensions\<close> field in every message.\<close>

definition set_dimensions :: "(job \<Rightarrow> int) \<Rightarrow> qmsg \<Rightarrow> qmsg" where
  "set_dimensions d m = m\<lparr>message := (message m)\<lparr>j_dimensions := d (message m)\<rparr>\<rparr>"

definition with_dimensions :: "(job \<Rightarrow> int) \<Rightarrow> database \<Rightarrow> database" where
  "with_dimensions d db =
     db\<lparr>queue := map (set_dimensions d) (queue db),
        archive := map (set_dimensions d) (archive db)\<rparr>"

section \<open>Example states\<close>

text \<open>
  A clock at 2026-11-04, an embedding API that answers with a zero vector of the
  requested dimension, a search routine that finds nothing; a store and a worker
  configured for dimension 3.
\<close>

definition env0 :: env where
  "env0 = \<lparr>now = 1000, today = 739924,
           aembedding = (\<lambda>svc texts. Inr (map (\<lambda>t. replicate (nat (es_dimensions svc)) 0) texts)),
           search_routine = (\<lambda>db f v l. Inr []),
           format_2f = (\<lambda>x. ''0.00'')\<rparr>"

text \<open>The same environment with an embedding API that answers every request with an error.\<close>

definition env_down :: env where
  "env_down = env0\<lparr>aembedding := (\<lambda>svc texts. Inl (EmbeddingError ''HTTP 500''))\<rparr>"

definition service0 :: EmbeddingService where
  "service0 = \<lparr>es_model = ''openai/text-embedding-3-small'', es_dimensions = 3,
               es_api_base = None, es_api_key = None\<rparr>"

definition store0 :: PostgresMemoryStore where
  "store0 = \<lparr>dimensions = 3, semantic_search_limit = 10, embedding_service = None\<rparr>"

definition worker0 :: MemoryEmbeddingWorker where
  "worker0 = \<lparr>embedding = service0, poll_interval = 2\<rparr>"

definition db0 :: database where
  "db0 = ensure_schema store0 empty_database"

text \<open>
  The database after \<^verbatim>\<open>append_today("had pasta")\<close> on 2026-11-03 and
  \<^verbatim>\<open>append_today("pizza is great")\<close> on 2026-11-04, with both embedding jobs still queued.
\<close>

definition env_yesterday :: env where
  "env_yesterday = env0\<lparr>now := 500, today := 739923\<rparr>"

definition db_yesterday :: database where
  "db_yesterday =
     \<lparr>tables =
        [''memory_daily_dim3'' \<mapsto>
           \<lparr>t_dim = 3, t_seq = 1,
            t_rows = DailyRows
              [\<lparr>d_id = 1, d_entry_date = 739923, d_content = ''had pasta'', d_embedding = None,
                d_created_at = 500, d_updated_at = 500\<rparr>]\<rparr>,
         ''memory_long_term_dim3'' \<mapsto> \<lparr>t_dim = 3, t_seq = 0, t_rows = LongTermRows []\<rparr>,
         ''memory_conversation_dim3'' \<mapsto> \<lparr>t_dim = 3, t_seq = 0, t_rows = ConversationRows []\<rparr>],
      queue =
        [\<lparr>msg_id = 1, vt = 500, read_ct = 0,
          message = \<lparr>j_table = ''memory_daily_dim3'', j_id = 1, j_content = ''had pasta'',
                     j_dimensions = 3\<rparr>\<rparr>],
      q_seq = 1,
      archive = []\<rparr>"

definition db_notes :: database where
  "db_notes =
     \<lparr>tables =
        [''memory_daily_dim3'' \<mapsto>
           \<lparr>t_dim = 3, t_seq = 2,
            t_rows = DailyRows
              [\<lparr>d_id = 1, d_entry_date = 739923, d_content = ''had pasta'', d_embedding = None,
                d_created_at = 500, d_updated_at = 500\<rparr>,
               \<lparr>d_id = 2, d_entry_date = 739924, d_content = ''pizza is great'',
                d_embedding = None, d_created_at = 1000, d_updated_at = 1000\<rparr>]\<rparr>,
         ''memory_long_term_dim3'' \<mapsto> \<lparr>t_dim = 3, t_seq = 0, t_rows = LongTermRows []\<rparr>,
         ''memory_conversation_dim3'' \<mapsto> \<lparr>t_dim = 3, t_seq = 0, t_rows = ConversationRows []\<rparr>],
      queue =
        [\<lparr>msg_id = 1, vt = 500, read_ct = 0,
          message = \<lparr>j_table = ''memory_daily_dim3'', j_id = 1, j_content = ''had pasta'',
                     j_dimensions = 3\<rparr>\<rparr>,
         \<lparr>msg_id = 2, vt = 1000, read_ct = 0,
          message = \<lparr>j_table = ''memory_daily_dim3'', j_id = 2, j_content = ''pizza is great'',
                     j_dimensions = 3\<rparr>\<rparr>],
      q_seq = 2,
      archive = []\<rparr>"


section \<open>Theorems: authentication of the HTTP gateway\<close>

lemma startswith_iff: "startswith s p \<longleftrightarrow> (\<exists>t. s = p @ t)"
  unfolding startswith_def
  by (metis append_eq_conv_conj append_take_drop_id)

lemma verify_api_key_configured:
  assumes "api_keys cfg = Some keys" and "keys \<noteq> []"
  shows "verify_api_key cfg req \<longleftrightarrow>
           (\<exists>tok. headers req ''Authorization'' = Some (''Bearer '' @ tok) \<and> tok \<in> set keys)"
proof (cases "headers req ''Authorization''")
  case None
  with assms show ?thesis
    by (simp add: verify_api_key_def startswith_def)
next
  case (Some h)
  show ?thesis
  proof (cases "startswith h ''Bearer ''")
    case True
    then obtain t where h: "h = ''Bearer '' @ t"
      using startswith_iff by blast
    with assms Some show ?thesis
      by (simp add: verify_api_key_def startswith_def)
  next
    case False
    then have "\<And>tok. h \<noteq> ''Bearer '' @ tok"
      using startswith_iff by blast
    with assms Some False show ?thesis
      by (simp add: verify_api_key_def)
  qed
qed

lemma unauthorized_401:
  "\<not> verify_api_key cfg req \<Longrightarrow>
     handle_chat_completions cfg is_allowed py_str hex1 hex2 req =
       Inr (Respond (error_response 401 ''Invalid API key'' ''invalid_request_error''))"
  by (simp add: handle_chat_completions_def)

text \<open>
  C8. When the \<^verbatim>\<open>api_keys\<close> allow-list is non-empty, a POST /v1/chat/completions request
  whose bearer token is missing (no Authorization header), malformed (the header does not
  start with \<^verbatim>\<open>Bearer \<close>) or unlisted (the token is not in the list) is answered with
  status 401 and \<^verbatim>\<open>error.type\<close> \<^verbatim>\<open>invalid_request_error\<close>, before anything else of the
  request is looked at. When no allow-list is configured (absent or empty), every request
  passes the check.
\<close>

theorem auth_reject_401:
  "(api_keys cfg = Some keys \<and> keys \<noteq> [] \<and>
      (headers req ''Authorization'' = None
       \<or> (\<exists>h. headers req ''Authorization'' = Some h \<and> \<not> startswith h ''Bearer '')
       \<or> (\<exists>tok. headers req ''Authorization'' = Some (''Bearer '' @ tok) \<and> tok \<notin> set keys))
     \<longrightarrow> handle_chat_completions cfg is_allowed py_str hex1 hex2 req =
           Inr (Respond \<lparr>status = 401,
                  payload = JDict [(''error'', JDict [(''message'', JStr ''Invalid API key''),
                                                     (''type'', JStr ''invalid_request_error'')])]\<rparr>))
   \<and> (api_keys cfg = None \<or> api_keys cfg = Some [] \<longrightarrow> verify_api_key cfg req)"
proof (intro conjI impI)
  assume a: "api_keys cfg = Some keys \<and> keys \<noteq> [] \<and>
      (headers req ''Authorization'' = None
       \<or> (\<exists>h. headers req ''Authorization'' = Some h \<and> \<not> startswith h ''Bearer '')
       \<or> (\<exists>tok. headers req ''Authorization'' = Some (''Bearer '' @ tok) \<and> tok \<notin> set keys))"
  then have "\<not> (\<exists>tok. headers req ''Authorization'' = Some (''Bearer '' @ tok) \<and> tok \<in> set keys)"
    by (auto simp: startswith_iff)
  with a have "\<not> verify_api_key cfg req"
    using verify_api_key_configured [of cfg keys req] by blast
  then show "handle_chat_completions cfg is_allowed py_str hex1 hex2 req =
           Inr (Respond \<lparr>status = 401,
                  payload = JDict [(''error'', JDict [(''message'', JStr ''Invalid API key''),
                                                     (''type'', JStr ''invalid_request_error'')])]\<rparr>)"
    using unauthorized_401 [of cfg req] by (simp add: error_response_def)
next
  assume "api_keys cfg = None \<or> api_keys cfg = Some []"
  then show "verify_api_key cfg req"
    by (auto simp: verify_api_key_def)
qed

theorem auth_reject_401_witness:
  "handle_chat_completions \<lparr>api_keys = Some [''k1''], timeout = 1, model_name = ''m''\<rparr>
       (\<lambda>u. True) (\<lambda>u. ''u1'') ''0123'' ''4567''
       \<lparr>headers = Map.empty, body_json = Some (JDict [])\<rparr> =
     Inr (Respond \<lparr>status = 401,
            payload = JDict [(''error'', JDict [(''message'', JStr ''Invalid API key''),
                                               (''type'', JStr ''invalid_request_error'')])]\<rparr>)
   \<and> handle_chat_completions \<lparr>api_keys = Some [''k1''], timeout = 1, model_name = ''m''\<rparr>
       (\<lambda>u. True) (\<lambda>u. ''u1'') ''0123'' ''4567''
       \<lparr>headers = [''Authorization'' \<mapsto> ''Bearer k2''], body_json = Some (JDict [])\<rparr> =
     Inr (Respond \<lparr>status = 401,
            payload = JDict [(''error'', JDict [(''message'', JStr ''Invalid API key''),
                                               (''type'', JStr ''invalid_request_error'')])]\<rparr>)
   \<and> verify_api_key \<lparr>api_keys = None, timeout = 1, model_name = ''m''\<rparr>
       \<lparr>headers = Map.empty, body_json = None\<rparr>"
  using
    auth_reject_401 [where cfg = "\<lparr>api_keys = Some [''k1''], timeout = 1, model_name = ''m''\<rparr>"
      and keys = "[''k1'']" and req = "\<lparr>headers = Map.empty, body_json = Some (JDict [])\<rparr>"
      and is_allowed = "\<lambda>u. True" and py_str = "\<lambda>u. ''u1''" and ?hex1.0 = "''0123''"
      and ?hex2.0 = "''4567''"]
    auth_reject_401 [where cfg = "\<lparr>api_keys = Some [''k1''], timeout = 1, model_name = ''m''\<rparr>"
      and keys = "[''k1'']"
      and req = "\<lparr>headers = [''Authorization'' \<mapsto> ''Bearer k2''], body_json = Some (JDict [])\<rparr>"
      and is_allowed = "\<lambda>u. True" and py_str = "\<lambda>u. ''u1''" and ?hex1.0 = "''0123''"
      and ?hex2.0 = "''4567''"]
    auth_reject_401 [where cfg = "\<lparr>api_keys = None, timeout = 1, model_name = ''m''\<rparr>"
      and req = "\<lparr>headers = Map.empty, body_json = None\<rparr>"]
  by simp

text \<open>
  C10. With a non-empty allow-list, a request whose Authorization header does not begin
  with the exact prefix \<^verbatim>\<open>Bearer \<close> is answered 401, whether or not the whole header value
  is itself a listed key; the check passes exactly when the header begins with that
  prefix and the rest of the header, after its first seven characters, is an element of
  the allow-list.
\<close>

theorem bearer_prefix_required:
  assumes "api_keys cfg = Some keys" and "keys \<noteq> []"
  shows "(\<forall>h. headers req ''Authorization'' = Some h \<and> \<not> startswith h ''Bearer '' \<longrightarrow>
            handle_chat_completions cfg is_allowed py_str hex1 hex2 req =
              Inr (Respond (error_response 401 ''Invalid API key'' ''invalid_request_error'')))
       \<and> (verify_api_key cfg req \<longleftrightarrow>
            (case headers req ''Authorization'' of
               None \<Rightarrow> False
             | Some h \<Rightarrow> startswith h ''Bearer '' \<and> drop 7 h \<in> set keys))"
proof -
  have iff: "verify_api_key cfg req \<longleftrightarrow>
            (case headers req ''Authorization'' of
               None \<Rightarrow> False
             | Some h \<Rightarrow> startswith h ''Bearer '' \<and> drop 7 h \<in> set keys)"
    using assms by (auto simp: verify_api_key_def startswith_def split: option.splits)
  then have "\<And>h. headers req ''Authorization'' = Some h \<Longrightarrow> \<not> startswith h ''Bearer '' \<Longrightarrow>
                \<not> verify_api_key cfg req"
    by simp
  with iff show ?thesis
    using unauthorized_401 [of cfg req] by blast
qed

theorem bearer_prefix_required_witness:
  "[''k1''] \<noteq> [] \<and> ''k1'' \<in> set [''k1''] \<and> \<not> startswith ''k1'' ''Bearer ''
   \<and> handle_chat_completions \<lparr>api_keys = Some [''k1''], timeout = 1, model_name = ''m''\<rparr>
       (\<lambda>u. True) (\<lambda>u. ''u1'') ''0123'' ''4567''
       \<lparr>headers = [''Authorization'' \<mapsto> ''k1''], body_json = Some (JDict [])\<rparr> =
     Inr (Respond (error_response 401 ''Invalid API key'' ''invalid_request_error''))
   \<and> verify_api_key \<lparr>api_keys = Some [''k1''], timeout = 1, model_name = ''m''\<rparr>
       \<lparr>headers = [''Authorization'' \<mapsto> ''Bearer k1''], body_json = None\<rparr>"
  using
    bearer_prefix_required [where cfg = "\<lparr>api_keys = Some [''k1''], timeout = 1, model_name = ''m''\<rparr>"
      and keys = "[''k1'']"
      and req = "\<lparr>headers = [''Authorization'' \<mapsto> ''k1''], body_json = Some (JDict [])\<rparr>"
      and is_allowed = "\<lambda>u. True" and py_str = "\<lambda>u. ''u1''" and ?hex1.0 = "''0123''"
      and ?hex2.0 = "''4567''"]
    bearer_prefix_required [where cfg = "\<lparr>api_keys = Some [''k1''], timeout = 1, model_name = ''m''\<rparr>"
      and keys = "[''k1'']"
      and req = "\<lparr>headers = [''Authorization'' \<mapsto> ''Bearer k1''], body_json = None\<rparr>"]
  by (simp add: startswith_def)

section \<open>Theorems: the reply paths of the HTTP gateway\<close>

lemma on_outbound_length [simp]: "length (futures (on_outbound m ch)) = length (futures ch)"
  by (simp add: on_outbound_def Let_def split: option.splits)

lemma on_outbound_other_key:
  "out_chat_id m \<noteq> c \<Longrightarrow> pending_responses (on_outbound m ch) c = pending_responses ch c"
  by (simp add: on_outbound_def Let_def split: option.splits)

lemma on_outbound_only_removes:
  "pending_responses (on_outbound m ch) c = Some f \<Longrightarrow> pending_responses ch c = Some f"
  by (auto simp: on_outbound_def Let_def split: option.splits if_splits)

lemma on_outbound_absent: "pending_responses ch (out_chat_id m) = None \<Longrightarrow> on_outbound m ch = ch"
  by (simp add: on_outbound_def)

lemma on_outbound_mapped_elsewhere:
  "pending_responses ch (out_chat_id m) = Some g \<Longrightarrow> g \<noteq> f \<Longrightarrow>
     futures (on_outbound m ch) ! f = futures ch ! f"
  unfolding on_outbound_def Let_def
  apply (simp only: option.case)
  apply (simp split: if_splits)
  done

lemma on_outbound_unmapped_future:
  assumes "pending_responses ch (out_chat_id m) \<noteq> Some f"
  shows "futures (on_outbound m ch) ! f = futures ch ! f"
proof (cases "pending_responses ch (out_chat_id m)")
  case None
  then show ?thesis by (simp only: on_outbound_absent)
next
  case (Some g)
  then have "g \<noteq> f" using assms by blast
  then show ?thesis using Some by (rule on_outbound_mapped_elsewhere [rotated])
qed

lemma channel_ok_on_outbound: "channel_ok ch \<Longrightarrow> channel_ok (on_outbound m ch)"
  unfolding channel_ok_def
proof (intro allI impI)
  fix c f
  assume ok: "\<forall>c f. pending_responses ch c = Some f \<longrightarrow> f < length (futures ch)"
  assume "pending_responses (on_outbound m ch) c = Some f"
  then have "pending_responses ch c = Some f"
    by (rule on_outbound_only_removes)
  with ok show "f < length (futures (on_outbound m ch))"
    by simp
qed

lemma channel_ok_empty: "channel_ok empty_channel"
  by (simp add: channel_ok_def empty_channel_def)

lemma channel_ok_begin:
  "channel_ok ch \<Longrightarrow> channel_ok (snd (non_stream_begin chat_id user content ch))"
  by (auto simp: channel_ok_def non_stream_begin_def handle_message_def Let_def less_Suc_eq)

text \<open>
  While only messages for other chats are delivered, a request stays registered and its
  future stays as it was, provided no other chat id holds that future.
\<close>

lemma deliver_others:
  assumes "\<forall>m \<in> set outs. out_chat_id m \<noteq> chat_id"
    and "\<forall>c. pending_responses ch c = Some f \<longrightarrow> c = chat_id"
  shows "pending_responses (deliver outs ch) chat_id = pending_responses ch chat_id
       \<and> futures (deliver outs ch) ! f = futures ch ! f
       \<and> length (futures (deliver outs ch)) = length (futures ch)"
  using assms
proof (induction outs arbitrary: ch)
  case Nil
  then show ?case by simp
next
  case (Cons m outs)
  have other: "out_chat_id m \<noteq> chat_id" using Cons.prems(1) by simp
  have unmapped: "pending_responses ch (out_chat_id m) \<noteq> Some f"
    using Cons.prems(2) other by blast
  have inv: "\<forall>c. pending_responses (on_outbound m ch) c = Some f \<longrightarrow> c = chat_id"
    using Cons.prems(2) on_outbound_only_removes by blast
  have "pending_responses (deliver outs (on_outbound m ch)) chat_id =
          pending_responses (on_outbound m ch) chat_id
        \<and> futures (deliver outs (on_outbound m ch)) ! f = futures (on_outbound m ch) ! f
        \<and> length (futures (deliver outs (on_outbound m ch))) = length (futures (on_outbound m ch))"
    using Cons.IH [of "on_outbound m ch"] Cons.prems(1) inv by simp
  then show ?case
    using on_outbound_other_key [OF other, of ch] on_outbound_unmapped_future [OF unmapped]
    by simp
qed

text \<open>A future that no chat id holds is never touched by a delivery.\<close>

lemma deliver_unmapped:
  assumes "\<forall>c. pending_responses ch c \<noteq> Some f"
  shows "futures (deliver later ch) ! f = futures ch ! f"
  using assms
proof (induction later arbitrary: ch)
  case Nil
  then show ?case by simp
next
  case (Cons m later)
  have "\<forall>c. pending_responses (on_outbound m ch) c \<noteq> Some f"
    using Cons.prems on_outbound_only_removes by blast
  then have "futures (deliver later (on_outbound m ch)) ! f = futures (on_outbound m ch) ! f"
    by (rule Cons.IH)
  then show ?case
    using on_outbound_unmapped_future [of ch m f] Cons.prems by simp
qed

lemma deliver_only_removes:
  "pending_responses (deliver outs ch) c = Some f \<Longrightarrow> pending_responses ch c = Some f"
proof (induction outs arbitrary: ch)
  case Nil
  then show ?case by simp
next
  case (Cons m outs)
  then have "pending_responses (on_outbound m ch) c = Some f" by simp
  then show ?case by (rule on_outbound_only_removes)
qed

text \<open>
  C6. A non-streaming request is registered; while its handler waits, only outbound
  messages for other chats are delivered, and then \<^verbatim>\<open>config.timeout\<close> seconds have passed.
  The handler answers 504 with \<^verbatim>\<open>error.type\<close> \<^verbatim>\<open>timeout_error\<close> and removes the request's
  entry from the pending map. Every outbound message for that chat id delivered
  afterwards leaves the channel as it is, and whatever is delivered later, the request's
  future is never given a result.
\<close>

theorem non_stream_timeout_504:
  assumes "channel_ok ch"
    and "non_stream_begin chat_id user content ch = (f, ch1)"
    and "\<forall>m \<in> set outs. out_chat_id m \<noteq> chat_id"
  shows "\<exists>ch3.
           non_stream_resume cfg request_id created chat_id content f True (deliver outs ch1) =
             Some (\<lparr>status = 504,
                     payload = JDict [(''error'', JDict [(''message'', JStr ''Request timeout''),
                                                        (''type'', JStr ''timeout_error'')])]\<rparr>,
                   ch3)
         \<and> pending_responses ch3 chat_id = None
         \<and> (\<forall>msg. out_chat_id msg = chat_id \<longrightarrow> on_outbound msg ch3 = ch3)
         \<and> (\<forall>later. futures (deliver later ch3) ! f = Cancelled)"
proof -
  have f: "f = length (futures ch)"
    and ch1: "ch1 = ch\<lparr>pending_responses := (pending_responses ch)(chat_id \<mapsto> f),
                       futures := futures ch @ [Pending],
                       published := published ch @
                         [\<lparr>in_channel = ''openapi'', in_sender_id = user, in_chat_id = chat_id,
                           in_content = content, in_wants_stream = False\<rparr>]\<rparr>"
    using assms(2) by (auto simp: non_stream_begin_def handle_message_def Let_def)
  have only: "\<forall>c. pending_responses ch1 c = Some f \<longrightarrow> c = chat_id"
    using assms(1) by (auto simp: ch1 f channel_ok_def)
  have pend1: "pending_responses ch1 chat_id = Some f" and fut1: "futures ch1 ! f = Pending"
    and len1: "length (futures ch1) = Suc f"
    by (simp_all add: ch1 f)
  define ch2 where "ch2 = deliver outs ch1"
  have pend2: "pending_responses ch2 chat_id = Some f" and fut2: "futures ch2 ! f = Pending"
    and len2: "length (futures ch2) = Suc f"
    using deliver_others [OF assms(3) only] pend1 fut1 len1 by (simp_all add: ch2_def)
  have only2: "\<forall>c. pending_responses ch2 c = Some f \<longrightarrow> c = chat_id"
    using only deliver_only_removes [of outs ch1] unfolding ch2_def by blast
  define ch3 where
    "ch3 = ch2\<lparr>futures := (futures ch2)[f := Cancelled],
              pending_responses := (pending_responses ch2)(chat_id := None)\<rparr>"
  have resume: "non_stream_resume cfg request_id created chat_id content f True ch2 =
                  Some (error_response 504 ''Request timeout'' ''timeout_error'', ch3)"
    using fut2 by (simp add: non_stream_resume_def ch3_def)
  have pend3: "pending_responses ch3 chat_id = None"
    by (simp add: ch3_def)
  have unmapped3: "\<forall>c. pending_responses ch3 c \<noteq> Some f"
    using only2 by (auto simp: ch3_def)
  have fut3: "futures ch3 ! f = Cancelled"
    using len2 by (simp add: ch3_def)
  have dropped: "\<forall>msg. out_chat_id msg = chat_id \<longrightarrow> on_outbound msg ch3 = ch3"
    using pend3 on_outbound_absent by metis
  have never: "\<forall>later. futures (deliver later ch3) ! f = Cancelled"
    using deliver_unmapped [OF unmapped3] fut3 by simp
  from resume pend3 dropped never show ?thesis
    unfolding ch2_def error_response_def by blast
qed

theorem non_stream_timeout_504_witness:
  "channel_ok empty_channel
   \<and> non_stream_begin ''u1:ab12cd34'' (JStr ''u1'') ''ping'' empty_channel =
       (0, \<lparr>pending_responses = [''u1:ab12cd34'' \<mapsto> 0], futures = [Pending],
            published = [\<lparr>in_channel = ''openapi'', in_sender_id = JStr ''u1'',
                           in_chat_id = ''u1:ab12cd34'', in_content = ''ping'',
                           in_wants_stream = False\<rparr>]\<rparr>)
   \<and> (\<exists>ch3.
         non_stream_resume \<lparr>api_keys = None, timeout = 1, model_name = ''m''\<rparr> ''chatcmpl-0'' 0
             ''u1:ab12cd34'' ''ping'' 0 True
             (deliver [\<lparr>out_channel = ''openapi'', out_chat_id = ''u2:00000000'', out_content = ''x''\<rparr>]
                \<lparr>pending_responses = [''u1:ab12cd34'' \<mapsto> 0], futures = [Pending],
                  published = [\<lparr>in_channel = ''openapi'', in_sender_id = JStr ''u1'',
                                 in_chat_id = ''u1:ab12cd34'', in_content = ''ping'',
                                 in_wants_stream = False\<rparr>]\<rparr>) =
           Some (\<lparr>status = 504,
                   payload = JDict [(''error'', JDict [(''message'', JStr ''Request timeout''),
                                                      (''type'', JStr ''timeout_error'')])]\<rparr>,
                 ch3)
         \<and> on_outbound \<lparr>out_channel = ''openapi'', out_chat_id = ''u1:ab12cd34'',
                          out_content = ''late''\<rparr> ch3 = ch3
         \<and> futures (deliver [\<lparr>out_channel = ''openapi'', out_chat_id = ''u1:ab12cd34'',
                                out_content = ''late''\<rparr>] ch3) ! 0 = Cancelled)"
proof -
  let ?ch1 = "\<lparr>pending_responses = [''u1:ab12cd34'' \<mapsto> (0::nat)], futures = [Pending],
            published = [\<lparr>in_channel = ''openapi'', in_sender_id = JStr ''u1'',
                           in_chat_id = ''u1:ab12cd34'', in_content = ''ping'',
                           in_wants_stream = False\<rparr>]\<rparr>"
  have b: "non_stream_begin ''u1:ab12cd34'' (JStr ''u1'') ''ping'' empty_channel = (0, ?ch1)"
    by (simp add: non_stream_begin_def handle_message_def empty_channel_def)
  have o: "\<forall>m \<in> set [\<lparr>out_channel = ''openapi'', out_chat_id = ''u2:00000000'', out_content = ''x''\<rparr>].
             out_chat_id m \<noteq> ''u1:ab12cd34''"
    by simp
  let ?late = "\<lparr>out_channel = ''openapi'', out_chat_id = ''u1:ab12cd34'', out_content = ''late''\<rparr>"
  obtain ch3 where
    r: "non_stream_resume \<lparr>api_keys = None, timeout = 1, model_name = ''m''\<rparr> ''chatcmpl-0'' 0
             ''u1:ab12cd34'' ''ping'' 0 True
             (deliver [\<lparr>out_channel = ''openapi'', out_chat_id = ''u2:00000000'', out_content = ''x''\<rparr>]
                ?ch1) =
           Some (\<lparr>status = 504,
                   payload = JDict [(''error'', JDict [(''message'', JStr ''Request timeout''),
                                                      (''type'', JStr ''timeout_error'')])]\<rparr>,
                 ch3)"
    and d: "\<forall>msg. out_chat_id msg = ''u1:ab12cd34'' \<longrightarrow> on_outbound msg ch3 = ch3"
    and n: "\<forall>later. futures (deliver later ch3) ! 0 = Cancelled"
    using non_stream_timeout_504 [OF channel_ok_empty b o,
        of "\<lparr>api_keys = None, timeout = 1, model_name = ''m''\<rparr>" "''chatcmpl-0''" 0]
    by blast
  have "on_outbound ?late ch3 = ch3"
    using d by simp
  moreover have "futures (deliver [?late] ch3) ! 0 = Cancelled"
    using n by blast
  ultimately show ?thesis
    using r b channel_ok_empty by blast
qed

text \<open>
  C7. When the callback of a streaming request receives the chunk \<^verbatim>\<open>("hel", is_final=False)\<close>
  and then \<^verbatim>\<open>("lo", is_final=True, finish_reason="stop")\<close>, the response body is exactly
  three writes: a data frame whose \<^verbatim>\<open>choices[0].delta\<close> is \<^verbatim>\<open>{"content": "hel"}\<close> (with a null
  finish reason), a data frame whose \<^verbatim>\<open>choices[0].delta\<close> is the empty object and whose
  \<^verbatim>\<open>choices[0].finish_reason\<close> is \<^verbatim>\<open>"stop"\<close>, and the line \<^verbatim>\<open>data: [DONE]\<close>.
\<close>

theorem stream_two_chunks:
  "handle_stream dumps cfg request_id clock
     [\<lparr>sc_content = ''hel'', is_final = False, finish_reason = None\<rparr>,
      \<lparr>sc_content = ''lo'', is_final = True, finish_reason = Some ''stop''\<rparr>] =
   [''data: '' @ dumps (JDict
        [(''id'', JStr request_id),
         (''object'', JStr ''chat.completion.chunk''),
         (''created'', JInt (clock 0)),
         (''model'', JStr (model_name cfg)),
         (''choices'', JList [JDict [(''index'', JInt 0),
                                    (''delta'', JDict [(''content'', JStr ''hel'')]),
                                    (''finish_reason'', JNull)]])]) @ [CHR 0x0A, CHR 0x0A],
    ''data: '' @ dumps (JDict
        [(''id'', JStr request_id),
         (''object'', JStr ''chat.completion.chunk''),
         (''created'', JInt (clock 1)),
         (''model'', JStr (model_name cfg)),
         (''choices'', JList [JDict [(''index'', JInt 0),
                                    (''delta'', JDict []),
                                    (''finish_reason'', JStr ''stop'')]])]) @ [CHR 0x0A, CHR 0x0A],
    ''data: [DONE]'' @ [CHR 0x0A, CHR 0x0A]]"
  by (simp add: handle_stream_def stream_callback_def sse_data_def sse_frame_def)

section \<open>Theorems: the memory stores\<close>

subsection \<open>Sorting a list whose last element has the largest or the smallest key\<close>







subsection \<open>Long-term memory of the relational store\<close>

lemma select_long_term_pgmq_send [simp]:
  "select_long_term n (pgmq_send e j db) = select_long_term n db"
  by (simp add: select_long_term_def pgmq_send_def)

lemma select_daily_pgmq_send [simp]:
  "select_daily n (pgmq_send e j db) = select_daily n db"
  by (simp add: select_daily_def pgmq_send_def)



subsection \<open>What a poll of the embedding worker leaves unchanged\<close>





lemma pgmq_archive_tables [simp]: "tables (pgmq_archive i db) = tables db"
  by (simp add: pgmq_archive_def)

text \<open>The three ways a poll can end.\<close>

lemma poll_once_cases:
  obtains
    (idle) "pgmq_read (now e) VISIBILITY_TIMEOUT (queue db) = None"
           "poll_once e w db = (False, [], db)"
  | (embed_failed) m q' x where
           "pgmq_read (now e) VISIBILITY_TIMEOUT (queue db) = Some (m, q')"
           "embed e (embedding w) (j_content (message m)) = Inl x"
           "poll_once e w db = (False, [EmbedCall (j_content (message m))], db\<lparr>queue := q'\<rparr>)"
  | (update_failed) m q' vec x where
           "pgmq_read (now e) VISIBILITY_TIMEOUT (queue db) = Some (m, q')"
           "embed e (embedding w) (j_content (message m)) = Inr vec"
           "sql_update_embedding e (j_table (message m)) (j_id (message m)) vec (db\<lparr>queue := q'\<rparr>) = Inl x"
           "poll_once e w db =
              (False, [EmbedCall (j_content (message m)),
                       SqlUpdate (j_table (message m)) (j_id (message m)) vec], db\<lparr>queue := q'\<rparr>)"
  | (archived) m q' vec db2 where
           "pgmq_read (now e) VISIBILITY_TIMEOUT (queue db) = Some (m, q')"
           "embed e (embedding w) (j_content (message m)) = Inr vec"
           "sql_update_embedding e (j_table (message m)) (j_id (message m)) vec (db\<lparr>queue := q'\<rparr>) = Inr db2"
           "poll_once e w db =
              (True, [EmbedCall (j_content (message m)),
                      SqlUpdate (j_table (message m)) (j_id (message m)) vec,
                      SqlArchive (msg_id m)], pgmq_archive (msg_id m) db2)"
proof (cases "pgmq_read (now e) VISIBILITY_TIMEOUT (queue db)")
  case None
  then have "poll_once e w db = (False, [], db)" by (simp add: poll_once_def)
  with None show ?thesis by (rule idle)
next
  case (Some p)
  obtain m q' where p: "p = (m, q')" by (cases p)
  note r = Some [unfolded p]
  show ?thesis
  proof (cases "embed e (embedding w) (j_content (message m))")
    case (Inl x)
    with r have "poll_once e w db = (False, [EmbedCall (j_content (message m))], db\<lparr>queue := q'\<rparr>)"
      by (simp add: poll_once_def Let_def)
    with r Inl show ?thesis by (rule embed_failed)
  next
    case (Inr vec)
    show ?thesis
    proof (cases "sql_update_embedding e (j_table (message m)) (j_id (message m)) vec (db\<lparr>queue := q'\<rparr>)")
      case (Inl x)
      with r Inr have "poll_once e w db =
              (False, [EmbedCall (j_content (message m)),
                       SqlUpdate (j_table (message m)) (j_id (message m)) vec], db\<lparr>queue := q'\<rparr>)"
        by (simp add: poll_once_def Let_def)
      with r Inr Inl show ?thesis by (rule update_failed)
    next
      case (Inr db2)
      with r \<open>embed e (embedding w) (j_content (message m)) = Inr vec\<close>
      have "poll_once e w db =
              (True, [EmbedCall (j_content (message m)),
                      SqlUpdate (j_table (message m)) (j_id (message m)) vec,
                      SqlArchive (msg_id m)], pgmq_archive (msg_id m) db2)"
        by (simp add: poll_once_def Let_def)
      with r \<open>embed e (embedding w) (j_content (message m)) = Inr vec\<close> Inr
      show ?thesis by (rule archived)
    qed
  qed
qed






subsection \<open>When the writes of the relational store succeed\<close>






lemma pg_append_today_total:
  assumes "tables db (daily_table st) = Some t"
    and "t_rows t = DailyRows rs"
    and "table_ok t"
    and "t_seq t < 9223372036854775807"
  shows "\<exists>db'. pg_append_today e st content db = Inr db'"
proof -
  have "t_seq t + 1 \<notin> d_id ` set rs"
    using assms(2,3) by (fastforce simp: table_ok_def)
  then show ?thesis
    using assms(1,2,4) by (simp add: pg_append_today_def sql_insert_daily_def Let_def)
qed

subsection \<open>The id invariant holds initially and is kept by every operation\<close>

lemma db_ok_update:
  "db_ok db \<Longrightarrow> table_ok t' \<Longrightarrow> tables db' = (tables db)(n \<mapsto> t') \<Longrightarrow> db_ok db'"
  by (simp add: db_ok_def)

lemma db_ok_same_tables: "db_ok db \<Longrightarrow> tables db' = tables db \<Longrightarrow> db_ok db'"
  by (simp add: db_ok_def)





lemma db_ok_pg_append_today:
  assumes "pg_append_today e st content db = Inr db'" and "db_ok db"
  shows "db_ok db'"
proof -
  obtain t where t: "tables db (daily_table st) = Some t"
    using assms(1)
    by (auto simp: pg_append_today_def sql_insert_daily_def split: option.splits)
  obtain rs where rs: "t_rows t = DailyRows rs"
    using assms(1) t
    by (auto simp: pg_append_today_def sql_insert_daily_def split: table_rows.splits)
  have ids: "\<forall>r \<in> set rs. d_id r \<le> t_seq t"
    using assms(2) t rs by (fastforce simp: db_ok_def table_ok_def)
  define t' where "t' = t\<lparr>t_seq := t_seq t + 1,
      t_rows := DailyRows (rs @ [\<lparr>d_id = t_seq t + 1, d_entry_date = today e, d_content = content,
                                 d_embedding = None, d_created_at = now e, d_updated_at = now e\<rparr>])\<rparr>"
  have "table_ok t'"
    using ids by (fastforce simp: table_ok_def t'_def)
  moreover have "tables db' = (tables db)(daily_table st \<mapsto> t')"
    using assms(1) t rs
    by (auto simp: pg_append_today_def sql_insert_daily_def Let_def pgmq_send_def t'_def
          split: if_splits)
  ultimately show ?thesis
    using assms(2) db_ok_update by blast
qed

lemma db_ok_pg_write_long_term:
  assumes "pg_write_long_term e st content db = Inr db'" and "db_ok db"
  shows "db_ok db'"
proof -
  obtain t where t: "tables db (long_term_table st) = Some t"
    using assms(1)
    by (auto simp: pg_write_long_term_def sql_next_version_def split: option.splits)
  obtain rs where rs: "t_rows t = LongTermRows rs"
    using assms(1) t
    by (auto simp: pg_write_long_term_def sql_next_version_def split: table_rows.splits)
  have ids: "\<forall>r \<in> set rs. lt_id r \<le> t_seq t"
    using assms(2) t rs by (fastforce simp: db_ok_def table_ok_def)
  obtain v where nv: "sql_next_version (long_term_table st) db = Inr v"
    using assms(1) by (auto simp: pg_write_long_term_def split: sum.splits)
  define t' where "t' = t\<lparr>t_seq := t_seq t + 1,
      t_rows := LongTermRows (rs @ [\<lparr>lt_id = t_seq t + 1, lt_content = content,
                                     lt_embedding = None, lt_version = v,
                                     lt_created_at = now e\<rparr>])\<rparr>"
  have "table_ok t'"
    using ids by (fastforce simp: table_ok_def t'_def)
  moreover have "tables db' = (tables db)(long_term_table st \<mapsto> t')"
    using assms(1) t rs nv
    by (auto simp: pg_write_long_term_def sql_insert_long_term_def Let_def pgmq_send_def t'_def
          split: if_splits)
  ultimately show ?thesis
    using assms(2) db_ok_update by blast
qed

lemma db_ok_sql_update_embedding:
  assumes "sql_update_embedding e tn i v db = Inr db'" and "db_ok db"
  shows "db_ok db'"
proof -
  obtain t where t: "tables db tn = Some t"
    using assms(1) by (auto simp: sql_update_embedding_def split: option.splits)
  have ok: "table_ok t"
    using assms(2) t by (auto simp: db_ok_def)
  show ?thesis
  proof (cases "t_rows t")
    case (DailyRows rs)
    define t' where "t' = t\<lparr>t_rows := DailyRows (map (\<lambda>r. if d_id r = i
        then r\<lparr>d_embedding := Some v, d_updated_at := now e\<rparr> else r) rs)\<rparr>"
    have "table_ok t'"
      using ok DailyRows by (auto simp: table_ok_def t'_def)
    moreover have "tables db' = (tables db)(tn \<mapsto> t')"
      using assms(1) t DailyRows
      by (auto simp: sql_update_embedding_def t'_def split: if_splits)
    ultimately show ?thesis
      using assms(2) db_ok_update by blast
  next
    case (LongTermRows rs)
    with assms(1) t show ?thesis by (simp add: sql_update_embedding_def)
  next
    case (ConversationRows rs)
    define t' where "t' = t\<lparr>t_rows := ConversationRows (map (\<lambda>r. if c_id r = i
        then r\<lparr>c_embedding := Some v, c_updated_at := now e\<rparr> else r) rs)\<rparr>"
    have "table_ok t'"
      using ok ConversationRows by (auto simp: table_ok_def t'_def)
    moreover have "tables db' = (tables db)(tn \<mapsto> t')"
      using assms(1) t ConversationRows
      by (auto simp: sql_update_embedding_def t'_def split: if_splits)
    ultimately show ?thesis
      using assms(2) db_ok_update by blast
  qed
qed

lemma db_ok_poll_once: "db_ok db \<Longrightarrow> db_ok (snd (snd (poll_once e w db)))"
proof (cases e w db rule: poll_once_cases)
  case idle
  assume "db_ok db"
  with idle show ?thesis by simp
next
  case (embed_failed m q' x)
  assume "db_ok db"
  then have "db_ok (db\<lparr>queue := q'\<rparr>)" by (rule db_ok_same_tables) simp
  with embed_failed show ?thesis by simp
next
  case (update_failed m q' vec x)
  assume "db_ok db"
  then have "db_ok (db\<lparr>queue := q'\<rparr>)" by (rule db_ok_same_tables) simp
  with update_failed show ?thesis by simp
next
  case (archived m q' vec db2)
  assume "db_ok db"
  then have "db_ok (db\<lparr>queue := q'\<rparr>)" by (rule db_ok_same_tables) simp
  with archived(3) have "db_ok db2" by (rule db_ok_sql_update_embedding)
  then have "db_ok (pgmq_archive (msg_id m) db2)" by (rule db_ok_same_tables) simp
  with archived(4) show ?thesis by simp
qed

lemma db_ok_run_polls: "db_ok db \<Longrightarrow> db_ok (run_polls ps db)"
proof (induction ps arbitrary: db)
  case Nil
  then show ?case by simp
next
  case (Cons p ps)
  obtain e w where p: "p = (e, w)" by (cases p)
  show ?case
    unfolding p using Cons.IH [OF db_ok_poll_once [OF Cons.prems]] by simp
qed

lemma backend_ok_append_today:
  "append_today e x b = Inr b' \<Longrightarrow> backend_ok b \<Longrightarrow> backend_ok b'"
  by (cases b) (auto split: sum.splits dest: db_ok_pg_append_today)

lemma backend_ok_write_long_term:
  "write_long_term e c b = Inr b' \<Longrightarrow> backend_ok b \<Longrightarrow> backend_ok b'"
  by (cases b) (auto split: sum.splits dest: db_ok_pg_write_long_term)

lemma backend_ok_embedding_progress: "backend_ok b \<Longrightarrow> backend_ok (embedding_progress ps b)"
  by (cases b) (auto intro: db_ok_run_polls)

subsection \<open>Evaluating the example states\<close>

lemma table_names0:
  "daily_table store0 = ''memory_daily_dim3''"
  "long_term_table store0 = ''memory_long_term_dim3''"
  "conversation_table store0 = ''memory_conversation_dim3''"
  by (simp_all add: daily_table_def long_term_table_def conversation_table_def store0_def
        str_int_def str_nat.simps digit_def)

lemma store0_simps:
  "dimensions store0 = 3" "semantic_search_limit store0 = 10" "embedding_service store0 = None"
  by (simp_all add: store0_def)

lemma tables_db0:
  "tables db0 = [''memory_daily_dim3'' \<mapsto> \<lparr>t_dim = 3, t_seq = 0, t_rows = DailyRows []\<rparr>,
                 ''memory_long_term_dim3'' \<mapsto> \<lparr>t_dim = 3, t_seq = 0, t_rows = LongTermRows []\<rparr>,
                 ''memory_conversation_dim3'' \<mapsto> \<lparr>t_dim = 3, t_seq = 0, t_rows = ConversationRows []\<rparr>]"
  "queue db0 = []" "q_seq db0 = 0" "archive db0 = []"
  by (simp_all add: db0_def ensure_schema_def create_table_if_not_exists_def table_names0
        empty_database_def store0_simps)

lemma today0: "date_str 739924 = ''2026-11-04''"
  by code_simp

lemma env_simps:
  "today env0 = 739924" "now env0 = 1000"
  "today env_yesterday = 739923" "now env_yesterday = 500"
  by (simp_all add: env0_def env_yesterday_def)

lemma yesterday0: "date_str 739923 = ''2026-11-03''"
  by code_simp

text \<open>The example database is what two calls of \<^verbatim>\<open>append_today\<close> on consecutive days produce.\<close>

lemma db_yesterday_reached:
  "pg_append_today env_yesterday store0 ''had pasta'' db0 = Inr db_yesterday"
  apply (simp add: pg_append_today_def sql_insert_daily_def table_names0 tables_db0 env_simps
      store0_simps pgmq_send_def db_yesterday_def)
  apply (rule database.equality)
      apply (simp_all add: tables_db0 fun_eq_iff)
  done

lemma db_notes_reached:
  "pg_append_today env0 store0 ''pizza is great'' db_yesterday = Inr db_notes"
  by (simp add: pg_append_today_def sql_insert_daily_def table_names0 env_simps
      store0_simps pgmq_send_def db_yesterday_def db_notes_def fun_eq_iff)



subsection \<open>Today's notes\<close>











subsection \<open>Recent memories\<close>

text \<open>
  The file store: no day is read for \<^verbatim>\<open>days=0\<close>, and only today's file for \<^verbatim>\<open>days=1\<close>.
\<close>

lemma file_get_recent_memories_0: "file_get_recent_memories day 0 fs = Inr []"
  by (simp add: file_get_recent_memories_def)

lemma file_get_recent_memories_1:
  assumes "1 \<le> day" and "day \<le> 3652059"
  shows "file_get_recent_memories day 1 fs = Inr (file_read_today day fs)"
proof -
  have "[0 ..< nat 1] = [0]" by simp
  moreover have "date_minus day (int 0) = Inr day"
    using assms by (simp add: date_minus_def)
  ultimately show ?thesis
    by (simp add: file_get_recent_memories_def file_read_today_def get_today_file_def today_date_def
          split: option.splits)
qed

text \<open>
  C2 (the relational store at the failing input). The daily table holds one row of
  2026-11-03 and one of 2026-11-04, and today is 2026-11-04. \<^verbatim>\<open>get_recent_memories(days=0)\<close>
  returns today's group, not the empty string, and \<^verbatim>\<open>get_recent_memories(days=1)\<close>
  returns the groups of today and of yesterday, not today's content alone: the cutoff
  \<^verbatim>\<open>entry_date >= today - days\<close> reaches one day further back than the loop of the file
  store, which returns the empty string and today's file.
\<close>

theorem recent_memories_relational_cutoff:
  "get_recent_memories env0 0 (PostgresBackend store0 db_notes) =
     Inr (''# 2026-11-04'' @ [CHR 0x0A, CHR 0x0A] @ ''pizza is great'')
   \<and> get_recent_memories env0 1 (PostgresBackend store0 db_notes) =
     Inr (''# 2026-11-04'' @ [CHR 0x0A, CHR 0x0A] @ ''pizza is great''
          @ [CHR 0x0A, CHR 0x0A] @ ''---'' @ [CHR 0x0A, CHR 0x0A]
          @ ''# 2026-11-03'' @ [CHR 0x0A, CHR 0x0A] @ ''had pasta'')
   \<and> read_today env0 (PostgresBackend store0 db_notes) = Inr ''pizza is great''
   \<and> get_recent_memories env0 0 (FileBackend fs) = Inr []
   \<and> get_recent_memories env0 1 (FileBackend fs) = read_today env0 (FileBackend fs)"
proof -
  have "pg_get_recent_memories env0 store0 0 db_notes =
          Inr (''# 2026-11-04'' @ [CHR 0x0A, CHR 0x0A] @ ''pizza is great'')"
    by (simp add: pg_get_recent_memories_def date_minus_def env_simps select_daily_def
          table_names0 db_notes_def today0 yesterday0 hr_separator_def)
  moreover have "pg_get_recent_memories env0 store0 1 db_notes =
     Inr (''# 2026-11-04'' @ [CHR 0x0A, CHR 0x0A] @ ''pizza is great''
          @ [CHR 0x0A, CHR 0x0A] @ ''---'' @ [CHR 0x0A, CHR 0x0A]
          @ ''# 2026-11-03'' @ [CHR 0x0A, CHR 0x0A] @ ''had pasta'')"
    by (simp add: pg_get_recent_memories_def date_minus_def env_simps select_daily_def
          table_names0 db_notes_def today0 yesterday0 hr_separator_def)
  moreover have "pg_read_today env0 store0 db_notes = Inr ''pizza is great''"
    by (simp add: pg_read_today_def env_simps select_daily_def table_names0 db_notes_def)
  moreover have "file_get_recent_memories (today env0) 1 fs = Inr (file_read_today (today env0) fs)"
    by (rule file_get_recent_memories_1) (simp_all add: env_simps)
  ultimately show ?thesis
    by (simp add: file_get_recent_memories_0)
qed

subsection \<open>Semantic context\<close>

text \<open>
  C9. For every query string, a relational store without an embedding service answers
  \<^verbatim>\<open>get_memory_context_semantic(query)\<close> with exactly what \<^verbatim>\<open>get_memory_context()\<close>
  returns (or raises) on the same database.
\<close>

theorem semantic_context_without_service:
  "embedding_service st = None \<Longrightarrow>
     pg_get_memory_context_semantic e st query db = pg_get_memory_context e st db"
  by (simp add: pg_get_memory_context_semantic_def)

theorem semantic_context_without_service_witness:
  "embedding_service store0 = None
   \<and> pg_get_memory_context_semantic env0 store0 ''food?'' db_notes =
       Inr (''## Today's Notes'' @ [CHR 0x0A] @ ''pizza is great'')
   \<and> pg_get_memory_context env0 store0 db_notes =
       Inr (''## Today's Notes'' @ [CHR 0x0A] @ ''pizza is great'')"
proof -
  have s: "embedding_service store0 = None" by (simp add: store0_simps)
  have "pg_get_memory_context env0 store0 db_notes =
          Inr (''## Today's Notes'' @ [CHR 0x0A] @ ''pizza is great'')"
    by (simp add: pg_get_memory_context_def pg_read_long_term_def select_long_term_def
          pg_read_today_def select_daily_def env_simps table_names0 db_notes_def
          long_term_section_def today_section_def)
  then show ?thesis
    using semantic_context_without_service [OF s, of env0 "''food?''" db_notes] s by simp
qed

section \<open>Theorems: the embedding worker\<close>

subsection \<open>Reading the queue\<close>

lemma pgmq_read_Some:
  assumes "pgmq_read t vts q = Some (m, q')"
  shows "\<exists>pre m0 post. q = pre @ m0 # post \<and> (\<forall>x \<in> set pre. \<not> vt x \<le> t) \<and> vt m0 \<le> t
           \<and> m = m0\<lparr>vt := t + vts, read_ct := read_ct m0 + 1\<rparr> \<and> q' = pre @ m # post"
  using assms
proof (induction q arbitrary: q')
  case Nil
  then show ?case by simp
next
  case (Cons a q)
  show ?case
  proof (cases "vt a \<le> t")
    case True
    with Cons.prems have "m = a\<lparr>vt := t + vts, read_ct := read_ct a + 1\<rparr>" and "q' = m # q"
      by (auto simp: Let_def)
    with True have "a # q = [] @ a # q \<and> (\<forall>x \<in> set []. \<not> vt x \<le> t) \<and> vt a \<le> t
        \<and> m = a\<lparr>vt := t + vts, read_ct := read_ct a + 1\<rparr> \<and> q' = [] @ m # q"
      by simp
    then show ?thesis by blast
  next
    case False
    with Cons.prems obtain q1 where r: "pgmq_read t vts q = Some (m, q1)" and q': "q' = a # q1"
      by (auto split: option.splits)
    from Cons.IH [OF r] obtain pre m0 post where
      "q = pre @ m0 # post" "\<forall>x \<in> set pre. \<not> vt x \<le> t" "vt m0 \<le> t"
      "m = m0\<lparr>vt := t + vts, read_ct := read_ct m0 + 1\<rparr>" "q1 = pre @ m # post"
      by blast
    with False q' have "a # q = (a # pre) @ m0 # post \<and> (\<forall>x \<in> set (a # pre). \<not> vt x \<le> t)
        \<and> vt m0 \<le> t \<and> m = m0\<lparr>vt := t + vts, read_ct := read_ct m0 + 1\<rparr>
        \<and> q' = (a # pre) @ m # post"
      by simp
    then show ?thesis by blast
  qed
qed

lemma pgmq_read_facts:
  assumes "pgmq_read t vts q = Some (m, q')"
  shows "m \<in> set q'" and "vt m = t + vts" and "map msg_id q' = map msg_id q"
    and "msg_id m \<in> msg_id ` set q"
proof -
  obtain pre m0 post where q: "q = pre @ m0 # post"
    and m: "m = m0\<lparr>vt := t + vts, read_ct := read_ct m0 + 1\<rparr>" and q': "q' = pre @ m # post"
    using pgmq_read_Some [OF assms] by blast
  show "m \<in> set q'" by (simp add: q')
  show "vt m = t + vts" by (simp add: m)
  show "map msg_id q' = map msg_id q" by (simp add: q q' m)
  show "msg_id m \<in> msg_id ` set q" by (simp add: q m)
qed

lemma pgmq_read_visible: "m \<in> set q \<Longrightarrow> vt m \<le> t \<Longrightarrow> pgmq_read t vts q \<noteq> None"
  by (induction q) (auto simp: Let_def split: option.splits)

lemma pgmq_read_source:
  assumes "pgmq_read t vts q = Some (r, q')"
  shows "\<exists>m0 \<in> set q. vt m0 \<le> t \<and> msg_id r = msg_id m0"
proof -
  obtain pre m0 post where "q = pre @ m0 # post" "vt m0 \<le> t"
    "r = m0\<lparr>vt := t + vts, read_ct := read_ct m0 + 1\<rparr>"
    using pgmq_read_Some [OF assms] by blast
  then show ?thesis by auto
qed

subsection \<open>The update statement and the queue\<close>

lemma sql_update_embedding_queue:
  assumes "sql_update_embedding e tn i v db = Inr db'"
  shows "queue db' = queue db" and "archive db' = archive db"
  using assms
  by (auto simp: sql_update_embedding_def split: option.splits table_rows.splits if_splits)

lemma sql_update_embedding_set_queue:
  "sql_update_embedding e tn i v (db\<lparr>queue := q\<rparr>) =
     (case sql_update_embedding e tn i v db of Inl x \<Rightarrow> Inl x | Inr db' \<Rightarrow> Inr (db'\<lparr>queue := q\<rparr>))"
  by (simp add: sql_update_embedding_def split: option.splits table_rows.splits)

lemma job_succeeds_set_queue: "job_succeeds e w (db\<lparr>queue := q\<rparr>) j = job_succeeds e w db j"
  by (simp add: job_succeeds_def sql_update_embedding_set_queue split: sum.splits)

lemma distinct_ids_mem:
  "distinct (map msg_id q) \<Longrightarrow> a \<in> set q \<Longrightarrow> b \<in> set q \<Longrightarrow> msg_id a = msg_id b \<Longrightarrow> a = b"
  by (meson distinct_map inj_onD)

lemma filter_id_distinct:
  "distinct (map msg_id q) \<Longrightarrow> m \<in> set q \<Longrightarrow> filter (\<lambda>x. msg_id x = msg_id m) q = [m]"
proof (induction q)
  case Nil
  then show ?case by simp
next
  case (Cons a q)
  show ?case
  proof (cases "a = m")
    case True
    with Cons.prems(1) have "\<forall>x \<in> set q. msg_id x \<noteq> msg_id m" by (auto simp: image_iff)
    then have "filter (\<lambda>x. msg_id x = msg_id m) q = []" by (simp add: filter_empty_conv)
    with True show ?thesis by simp
  next
    case False
    with Cons.prems have "m \<in> set q" and "msg_id a \<noteq> msg_id m" by (auto simp: image_iff)
    with Cons show ?thesis by simp
  qed
qed

subsection \<open>The queue invariant holds initially and is kept by every operation\<close>

lemma queue_ok_ids:
  "queue_ok db \<longleftrightarrow>
     distinct (map msg_id (queue db) @ map msg_id (archive db))
     \<and> (\<forall>i \<in> set (map msg_id (queue db) @ map msg_id (archive db)). i \<le> q_seq db)"
  by (simp add: queue_ok_def ball_Un)

lemma queue_ok_empty: "queue_ok empty_database"
  by (simp add: queue_ok_def empty_database_def)

lemma queue_ok_same_queue:
  "queue_ok db \<Longrightarrow> map msg_id (queue db') = map msg_id (queue db) \<Longrightarrow>
     archive db' = archive db \<Longrightarrow> q_seq db' = q_seq db \<Longrightarrow> queue_ok db'"
  unfolding queue_ok_ids by metis

lemma queue_ok_create_table:
  "queue_ok (create_table_if_not_exists n t db) = queue_ok db"
  by (simp add: queue_ok_def create_table_if_not_exists_def split: option.splits)

lemma queue_ok_ensure_schema: "queue_ok db \<Longrightarrow> queue_ok (ensure_schema st db)"
  by (simp add: ensure_schema_def queue_ok_create_table)

lemma queue_ok_db0: "queue_ok db0"
  unfolding db0_def by (intro queue_ok_ensure_schema queue_ok_empty)

lemma queue_ok_pgmq_send:
  assumes "queue_ok db"
  shows "queue_ok (pgmq_send e j db)"
proof -
  let ?ids = "map msg_id (queue db) @ map msg_id (archive db)"
  have d: "distinct ?ids" and bound: "\<forall>i \<in> set ?ids. i \<le> q_seq db"
    using assms unfolding queue_ok_ids by blast+
  have fresh: "q_seq db + 1 \<notin> set ?ids"
    using bound by fastforce
  have "distinct (map msg_id (queue db) @ [q_seq db + 1] @ map msg_id (archive db))"
    using d fresh by auto
  moreover have "\<forall>i \<in> set (map msg_id (queue db) @ [q_seq db + 1] @ map msg_id (archive db)).
                  i \<le> q_seq db + 1"
  proof
    fix i assume "i \<in> set (map msg_id (queue db) @ [q_seq db + 1] @ map msg_id (archive db))"
    then have "i = q_seq db + 1 \<or> i \<in> set ?ids" by auto
    then show "i \<le> q_seq db + 1"
    proof
      assume "i = q_seq db + 1"
      then show ?thesis by simp
    next
      assume "i \<in> set ?ids"
      with bound have "i \<le> q_seq db" by blast
      then show ?thesis by simp
    qed
  qed
  ultimately show ?thesis
    by (simp add: queue_ok_ids pgmq_send_def)
qed

lemma queue_ok_pg_append_today:
  assumes "pg_append_today e st content db = Inr db'" and "queue_ok db"
  shows "queue_ok db'"
proof -
  obtain i db1 where i: "sql_insert_daily e (daily_table st) content db = Inr (i, db1)"
    and db': "db' = pgmq_send e \<lparr>j_table = daily_table st, j_id = i, j_content = content,
                                 j_dimensions = dimensions st\<rparr> db1"
    using assms(1) by (auto simp: pg_append_today_def split: sum.splits)
  have "queue db1 = queue db" "archive db1 = archive db" "q_seq db1 = q_seq db"
    using i
    by (auto simp: sql_insert_daily_def Let_def split: option.splits table_rows.splits if_splits)
  with assms(2) have "queue_ok db1"
    unfolding queue_ok_ids by metis
  then show ?thesis
    unfolding db' by (rule queue_ok_pgmq_send)
qed

lemma queue_ok_pg_write_long_term:
  assumes "pg_write_long_term e st content db = Inr db'" and "queue_ok db"
  shows "queue_ok db'"
proof -
  obtain v i db1 where
    i: "sql_insert_long_term e (long_term_table st) content v db = Inr (i, db1)"
    and db': "db' = pgmq_send e \<lparr>j_table = long_term_table st, j_id = i, j_content = content,
                                 j_dimensions = dimensions st\<rparr> db1"
    using assms(1) by (auto simp: pg_write_long_term_def split: sum.splits)
  have "queue db1 = queue db" "archive db1 = archive db" "q_seq db1 = q_seq db"
    using i
    by (auto simp: sql_insert_long_term_def Let_def split: option.splits table_rows.splits if_splits)
  with assms(2) have "queue_ok db1"
    unfolding queue_ok_ids by metis
  then show ?thesis
    unfolding db' by (rule queue_ok_pgmq_send)
qed

lemma queue_ok_pgmq_archive:
  assumes "queue_ok db"
  shows "queue_ok (pgmq_archive i db)"
proof -
  let ?q = "map msg_id (queue db)" and ?a = "map msg_id (archive db)"
  have d: "distinct (?q @ ?a)" and bound: "\<forall>k \<in> set (?q @ ?a). k \<le> q_seq db"
    using assms unfolding queue_ok_ids by blast+
  have q': "map msg_id (queue (pgmq_archive i db)) = filter (\<lambda>k. k \<noteq> i) ?q"
    and a': "map msg_id (archive (pgmq_archive i db)) = ?a @ filter (\<lambda>k. k = i) ?q"
    and s': "q_seq (pgmq_archive i db) = q_seq db"
    by (simp_all add: pgmq_archive_def filter_map comp_def)
  have "distinct (filter (\<lambda>k. k \<noteq> i) ?q @ ?a @ filter (\<lambda>k. k = i) ?q)"
    using d by auto
  moreover have "\<forall>k \<in> set (filter (\<lambda>k. k \<noteq> i) ?q @ ?a @ filter (\<lambda>k. k = i) ?q). k \<le> q_seq db"
    using bound by auto
  ultimately show ?thesis
    by (simp only: queue_ok_ids q' a' s' append_assoc)
qed

lemma queue_ok_poll_once:
  assumes "queue_ok db"
  shows "queue_ok (snd (snd (poll_once e w db)))"
proof (cases e w db rule: poll_once_cases)
  case idle
  with assms show ?thesis by simp
next
  case (embed_failed m q' x)
  have "queue_ok (db\<lparr>queue := q'\<rparr>)"
    using assms pgmq_read_facts(3) [OF embed_failed(1)] by (simp add: queue_ok_ids)
  with embed_failed show ?thesis by simp
next
  case (update_failed m q' vec x)
  have "queue_ok (db\<lparr>queue := q'\<rparr>)"
    using assms pgmq_read_facts(3) [OF update_failed(1)] by (simp add: queue_ok_ids)
  with update_failed show ?thesis by simp
next
  case (archived m q' vec db2)
  have ok1: "queue_ok (db\<lparr>queue := q'\<rparr>)"
    using assms pgmq_read_facts(3) [OF archived(1)] by (simp add: queue_ok_ids)
  have "queue db2 = q'" "archive db2 = archive db" "q_seq db2 = q_seq db"
    using archived(3)
    by (auto simp: sql_update_embedding_def split: option.splits table_rows.splits if_splits)
  with ok1 have "queue_ok db2"
    by (simp add: queue_ok_ids)
  then have "queue_ok (pgmq_archive (msg_id m) db2)" by (rule queue_ok_pgmq_archive)
  with archived(4) show ?thesis by simp
qed

text \<open>
  C5. Let the worker's poll read the message m. The message is archived by that poll
  exactly when the embedding call returns a vector and the \<^verbatim>\<open>UPDATE\<close> of the row succeeds
  (and then the poll returns \<^verbatim>\<open>True\<close> and the message has left the queue). When the
  embedding call or the \<^verbatim>\<open>UPDATE\<close> fails, no archive call is made, the archive and the
  tables are as before, and the message stays in the queue, invisible until 30 seconds
  after the read: a read before that time does not return it, and every read from that
  time on finds a message.
\<close>

theorem archived_iff_embed_and_update_succeed:
  assumes "queue_ok db"
    and "pgmq_read (now e) VISIBILITY_TIMEOUT (queue db) = Some (m, q')"
    and "poll_once e w db = (processed, effects, db')"
  shows "(msg_id m \<in> msg_id ` set (archive db') \<longleftrightarrow> job_succeeds e w db (message m))
       \<and> (SqlArchive (msg_id m) \<in> set effects \<longleftrightarrow> job_succeeds e w db (message m))
       \<and> (processed \<longleftrightarrow> job_succeeds e w db (message m))
       \<and> (job_succeeds e w db (message m) \<longrightarrow> msg_id m \<notin> msg_id ` set (queue db'))
       \<and> (\<not> job_succeeds e w db (message m) \<longrightarrow>
             m \<in> set (queue db') \<and> vt m = now e + 30
             \<and> archive db' = archive db \<and> tables db' = tables db
             \<and> (\<forall>t r qr. t < now e + 30 \<longrightarrow>
                   pgmq_read t VISIBILITY_TIMEOUT (queue db') = Some (r, qr) \<longrightarrow>
                   msg_id r \<noteq> msg_id m)
             \<and> (\<forall>t. now e + 30 \<le> t \<longrightarrow> pgmq_read t VISIBILITY_TIMEOUT (queue db') \<noteq> None))"
proof -
  let ?j = "message m"
  have mq': "m \<in> set q'" and vtm: "vt m = now e + 30"
    and ids: "map msg_id q' = map msg_id (queue db)"
    and mid: "msg_id m \<in> msg_id ` set (queue db)"
    using pgmq_read_facts [OF assms(2)] by (simp_all add: VISIBILITY_TIMEOUT_def)
  have dq: "distinct (map msg_id (queue db))"
    and fresh: "msg_id m \<notin> msg_id ` set (archive db)"
    using assms(1) mid by (auto simp: queue_ok_def)
  have dq': "distinct (map msg_id q')" using dq ids by simp
  have js: "job_succeeds e w db ?j = job_succeeds e w (db\<lparr>queue := q'\<rparr>) ?j"
    by (simp add: job_succeeds_set_queue)
  show ?thesis
  proof (cases e w db rule: poll_once_cases)
    case idle
    with assms(2) show ?thesis by simp
  next
    case (embed_failed m1 q1 x)
    with assms(2,3) have eq: "m1 = m" "q1 = q'" "processed = False"
      "effects = [EmbedCall (j_content ?j)]" "db' = db\<lparr>queue := q'\<rparr>"
      by simp_all
    have fail: "\<not> job_succeeds e w db ?j"
      using embed_failed(2) eq by (simp add: job_succeeds_def)
    have hidden: "\<forall>t r qr. t < now e + 30 \<longrightarrow>
        pgmq_read t VISIBILITY_TIMEOUT q' = Some (r, qr) \<longrightarrow> msg_id r \<noteq> msg_id m"
    proof (intro allI impI notI)
      fix t r qr
      assume t: "t < now e + 30" and r: "pgmq_read t VISIBILITY_TIMEOUT q' = Some (r, qr)"
        and same: "msg_id r = msg_id m"
      obtain m0 where "m0 \<in> set q'" "vt m0 \<le> t" "msg_id r = msg_id m0"
        using pgmq_read_source [OF r] by blast
      with same mq' dq' have "m0 = m" using distinct_ids_mem by metis
      with \<open>vt m0 \<le> t\<close> vtm t show False by simp
    qed
    have later: "\<forall>t. now e + 30 \<le> t \<longrightarrow> pgmq_read t VISIBILITY_TIMEOUT q' \<noteq> None"
      using pgmq_read_visible [OF mq'] vtm by simp
    show ?thesis
      using fail fresh mq' vtm hidden later by (simp add: eq)
  next
    case (update_failed m1 q1 vec x)
    with assms(2,3) have eq: "m1 = m" "q1 = q'" "processed = False"
      "effects = [EmbedCall (j_content ?j), SqlUpdate (j_table ?j) (j_id ?j) vec]"
      "db' = db\<lparr>queue := q'\<rparr>"
      by simp_all
    have fail: "\<not> job_succeeds e w db ?j"
      unfolding js using update_failed(2,3) eq by (simp add: job_succeeds_def)
    have hidden: "\<forall>t r qr. t < now e + 30 \<longrightarrow>
        pgmq_read t VISIBILITY_TIMEOUT q' = Some (r, qr) \<longrightarrow> msg_id r \<noteq> msg_id m"
    proof (intro allI impI notI)
      fix t r qr
      assume t: "t < now e + 30" and r: "pgmq_read t VISIBILITY_TIMEOUT q' = Some (r, qr)"
        and same: "msg_id r = msg_id m"
      obtain m0 where "m0 \<in> set q'" "vt m0 \<le> t" "msg_id r = msg_id m0"
        using pgmq_read_source [OF r] by blast
      with same mq' dq' have "m0 = m" using distinct_ids_mem by metis
      with \<open>vt m0 \<le> t\<close> vtm t show False by simp
    qed
    have later: "\<forall>t. now e + 30 \<le> t \<longrightarrow> pgmq_read t VISIBILITY_TIMEOUT q' \<noteq> None"
      using pgmq_read_visible [OF mq'] vtm by simp
    show ?thesis
      using fail fresh mq' vtm hidden later by (simp add: eq)
  next
    case (archived m1 q1 vec db2)
    with assms(2,3) have eq: "m1 = m" "q1 = q'" "processed = True"
      "effects = [EmbedCall (j_content ?j), SqlUpdate (j_table ?j) (j_id ?j) vec,
                  SqlArchive (msg_id m)]"
      "db' = pgmq_archive (msg_id m) db2"
      by simp_all
    have ok: "job_succeeds e w db ?j"
      unfolding js using archived(2,3) eq by (simp add: job_succeeds_def)
    have q2: "queue db2 = q'" and a2: "archive db2 = archive db"
      using sql_update_embedding_queue [OF archived(3)] eq by simp_all
    have "filter (\<lambda>x. msg_id x = msg_id m) q' = [m]"
      using dq' mq' by (rule filter_id_distinct)
    then have arch: "archive db' = archive db @ [m]"
      by (simp add: eq pgmq_archive_def q2 a2)
    have gone: "msg_id m \<notin> msg_id ` set (queue db')"
      by (auto simp: eq pgmq_archive_def q2)
    show ?thesis
      using ok arch gone by (simp add: eq)
  qed
qed

subsection \<open>The \<^verbatim>\<open>dimensions\<close> field of a message\<close>

lemma set_dimensions_simps [simp]:
  "msg_id (set_dimensions d m) = msg_id m"
  "vt (set_dimensions d m) = vt m"
  "read_ct (set_dimensions d m) = read_ct m"
  "j_table (message (set_dimensions d m)) = j_table (message m)"
  "j_id (message (set_dimensions d m)) = j_id (message m)"
  "j_content (message (set_dimensions d m)) = j_content (message m)"
  "set_dimensions d (m\<lparr>vt := a, read_ct := b\<rparr>) = (set_dimensions d m)\<lparr>vt := a, read_ct := b\<rparr>"
  by (simp_all add: set_dimensions_def)


lemma with_dimensions_simps [simp]:
  "tables (with_dimensions d db) = tables db"
  "queue (with_dimensions d db) = map (set_dimensions d) (queue db)"
  "archive (with_dimensions d db) = map (set_dimensions d) (archive db)"
  "(with_dimensions d db)\<lparr>queue := map (set_dimensions d) q\<rparr> = with_dimensions d (db\<lparr>queue := q\<rparr>)"
  by (simp_all add: with_dimensions_def)





subsection \<open>Polls on the example states\<close>

lemma embed0: "embed env0 (embedding worker0) text = Inr [0, 0, 0]"
  by (simp add: embed_def env0_def worker0_def service0_def numeral_3_eq_3)

lemma embed_down: "embed env_down (embedding worker0) text = Inl (EmbeddingError ''HTTP 500'')"
  by (simp add: embed_def env_down_def env0_def)

lemma env_down_simps: "now env_down = 1000" "today env_down = 739924"
  by (simp_all add: env_down_def env0_def)




lemma queue_ok_db_notes: "queue_ok db_notes"
  by (simp add: queue_ok_def db_notes_def)

lemma read_db_notes:
  "pgmq_read 1000 VISIBILITY_TIMEOUT (queue db_notes) =
     Some (\<lparr>msg_id = 1, vt = 1030, read_ct = 1,
             message = \<lparr>j_table = ''memory_daily_dim3'', j_id = 1, j_content = ''had pasta'',
                        j_dimensions = 3\<rparr>\<rparr>,
           [\<lparr>msg_id = 1, vt = 1030, read_ct = 1,
             message = \<lparr>j_table = ''memory_daily_dim3'', j_id = 1, j_content = ''had pasta'',
                        j_dimensions = 3\<rparr>\<rparr>,
            \<lparr>msg_id = 2, vt = 1000, read_ct = 0,
             message = \<lparr>j_table = ''memory_daily_dim3'', j_id = 2, j_content = ''pizza is great'',
                        j_dimensions = 3\<rparr>\<rparr>])"
  by (simp add: db_notes_def VISIBILITY_TIMEOUT_def Let_def)

theorem archived_iff_embed_and_update_succeed_witness:
  "queue_ok db_notes
   \<and> job_succeeds env0 worker0 db_notes
        \<lparr>j_table = ''memory_daily_dim3'', j_id = 1, j_content = ''had pasta'', j_dimensions = 3\<rparr>
   \<and> fst (poll_once env0 worker0 db_notes)
   \<and> 1 \<in> msg_id ` set (archive (snd (snd (poll_once env0 worker0 db_notes))))
   \<and> 1 \<notin> msg_id ` set (queue (snd (snd (poll_once env0 worker0 db_notes))))
   \<and> \<not> job_succeeds env_down worker0 db_notes
        \<lparr>j_table = ''memory_daily_dim3'', j_id = 1, j_content = ''had pasta'', j_dimensions = 3\<rparr>
   \<and> \<not> fst (poll_once env_down worker0 db_notes)
   \<and> archive (snd (snd (poll_once env_down worker0 db_notes))) = archive db_notes
   \<and> \<lparr>msg_id = 1, vt = 1030, read_ct = 1,
       message = \<lparr>j_table = ''memory_daily_dim3'', j_id = 1, j_content = ''had pasta'',
                  j_dimensions = 3\<rparr>\<rparr> \<in> set (queue (snd (snd (poll_once env_down worker0 db_notes))))
   \<and> pgmq_read 1030 VISIBILITY_TIMEOUT (queue (snd (snd (poll_once env_down worker0 db_notes)))) \<noteq> None"
proof -
  let ?m = "\<lparr>msg_id = 1, vt = 1030, read_ct = 1,
       message = \<lparr>j_table = ''memory_daily_dim3'', j_id = 1, j_content = ''had pasta'',
                  j_dimensions = 3\<rparr>\<rparr>"
  have up: "job_succeeds env0 worker0 db_notes (message ?m)"
    by (simp add: job_succeeds_def embed0 sql_update_embedding_def db_notes_def)
  have down: "\<not> job_succeeds env_down worker0 db_notes (message ?m)"
    by (simp add: job_succeeds_def embed_down)
  have r0: "pgmq_read (now env0) VISIBILITY_TIMEOUT (queue db_notes) = Some (?m, snd (the (pgmq_read 1000 VISIBILITY_TIMEOUT (queue db_notes))))"
    by (simp add: read_db_notes env_simps)
  have r1: "pgmq_read (now env_down) VISIBILITY_TIMEOUT (queue db_notes) = Some (?m, snd (the (pgmq_read 1000 VISIBILITY_TIMEOUT (queue db_notes))))"
    by (simp add: read_db_notes env_down_simps)
  have p0: "poll_once env0 worker0 db_notes =
      (fst (poll_once env0 worker0 db_notes), fst (snd (poll_once env0 worker0 db_notes)),
       snd (snd (poll_once env0 worker0 db_notes)))"
    by simp
  have p1: "poll_once env_down worker0 db_notes =
      (fst (poll_once env_down worker0 db_notes), fst (snd (poll_once env_down worker0 db_notes)),
       snd (snd (poll_once env_down worker0 db_notes)))"
    by simp
  show ?thesis
    using archived_iff_embed_and_update_succeed [OF queue_ok_db_notes r0 p0]
      archived_iff_embed_and_update_succeed [OF queue_ok_db_notes r1 p1]
      up down queue_ok_db_notes
    by (simp add: env_down_simps)
qed

end
